theory Spec2Isabelle
  imports Complex_Main "HOL-Library.Char_ord" "HOL-Library.List_Lexorder"
begin

section \<open>Data model of \<^verbatim>\<open>backend/server.py\<close>\<close>

text \<open>
  The server keeps four MongoDB collections (\<^verbatim>\<open>metrics\<close>, \<^verbatim>\<open>anomalies\<close>,
  \<^verbatim>\<open>incidents\<close>, \<^verbatim>\<open>actions\<close>) and two process-wide objects
  (\<^verbatim>\<open>anomaly_detector\<close>, \<^verbatim>\<open>data_simulator\<close>). Every handler is modelled as a
  function from its arguments and the state it touches to its HTTP outcome and the new state.

  Conventions of the embedding:
  \<^item> Python floats are modelled by \<^typ>\<open>real\<close>: rounding, infinities and NaN are left out.
  \<^item> Timestamps are the ISO-8601 strings the server stores
    (\<^verbatim>\<open>datetime.now(timezone.utc).isoformat()\<close>); the clock reading is an argument of each
    handler that reads the clock, and strings are ordered lexicographically as MongoDB
    orders them.
  \<^item> Fresh identifiers (\<^verbatim>\<open>uuid.uuid4()\<close>) are arguments as well.
  \<^item> The fitted \<^verbatim>\<open>IsolationForest\<close>, \<^verbatim>\<open>json.loads\<close> and the language-model call are
    library code outside the repository: they are parameters, with \<open>None\<close> standing for
    a raised exception.
  \<^item> Failures of the database driver itself are not modelled.
\<close>

subsection \<open>JSON values and documents\<close>

datatype json =
    JNull
  | JBool bool
  | JInt int
  | JFloat real
  | JStr string
  | JArr "json list"
  | JObj "(string \<times> json) list"

text \<open>Python truthiness of a decoded JSON value (\<^verbatim>\<open>if x:\<close>).\<close>

fun truthy :: "json \<Rightarrow> bool" where
  "truthy JNull = False"
| "truthy (JBool b) = b"
| "truthy (JInt n) = (n \<noteq> 0)"
| "truthy (JFloat r) = (r \<noteq> 0)"
| "truthy (JStr s) = (s \<noteq> [])"
| "truthy (JArr xs) = (xs \<noteq> [])"
| "truthy (JObj kvs) = (kvs \<noteq> [])"

text \<open>
  A stored document with top-level fields only. A MongoDB equality filter
  \<^verbatim>\<open>{field: "s"}\<close> on a string \<open>s\<close> selects the documents whose field is that string, or
  is an array holding that string.
\<close>

type_synonym doc = "string \<rightharpoonup> json"

fun matches_str :: "json option \<Rightarrow> string \<Rightarrow> bool" where
  "matches_str (Some (JStr t)) s = (t = s)"
| "matches_str (Some (JArr xs)) s = (JStr s \<in> set xs)"
| "matches_str _ s = False"

text \<open>
  \<^verbatim>\<open>find_one(filter)\<close> and \<^verbatim>\<open>update_one(filter, {"$set": ...})\<close>: the first document
  the filter selects. \<open>update_one\<close> returns \<open>None\<close> when \<^verbatim>\<open>matched_count == 0\<close>.
\<close>

fun find_one :: "('a \<Rightarrow> bool) \<Rightarrow> 'a list \<Rightarrow> 'a option" where
  "find_one p [] = None"
| "find_one p (x # xs) = (if p x then Some x else find_one p xs)"

fun update_one :: "('a \<Rightarrow> bool) \<Rightarrow> ('a \<Rightarrow> 'a) \<Rightarrow> 'a list \<Rightarrow> 'a list option" where
  "update_one p f [] = None"
| "update_one p f (x # xs) =
     (if p x then Some (f x # xs) else map_option ((#) x) (update_one p f xs))"

definition count_documents :: "('a \<Rightarrow> bool) \<Rightarrow> 'a list \<Rightarrow> nat" where
  "count_documents p xs = length (filter p xs)"

subsection \<open>Pydantic models\<close>

record SystemMetric =
  timestamp :: string
  service :: string
  cpu :: real
  memory :: real
  latency :: real
  error_rate :: real
  requests_per_sec :: real

record Anomaly =
  anomaly_id :: string
  anomaly_timestamp :: string
  anomaly_service :: string
  metric_type :: string
  severity :: string
  confidence :: real
  anomaly_description :: string
  anomaly_value :: real
  anomaly_baseline :: real

record Action =
  action_id :: string
  incident_id :: string
  action :: string
  description :: string
  risk_level :: string
  impact :: string
  status :: string
  approved_by :: "string option"
  executed_at :: "string option"
  created_at :: string

record IncidentCreate =
  title :: string
  new_severity :: string
  new_service :: string
  anomaly_ids :: "string list"

record db =
  metrics :: "SystemMetric list"
  anomalies :: "Anomaly list"
  incidents :: "doc list"
  actions :: "Action list"

text \<open>\<^verbatim>\<open>HTTPException(status_code=...)\<close>; the detail text is not modelled.\<close>

datatype http_error = HTTPException nat

section \<open>The anomaly detector\<close>

text \<open>
  \<^verbatim>\<open>class AnomalyDetector\<close>: the model object is of an abstract type \<open>'m\<close>;
  \<open>fit\<close>, \<open>predict\<close> and \<open>score_samples\<close> are the library's and are passed in.
\<close>

record 'm AnomalyDetector =
  model :: 'm
  is_trained :: bool
  baseline_data :: "real list"

definition AnomalyDetector_init :: "'m \<Rightarrow> 'm AnomalyDetector" where
  "AnomalyDetector_init unfitted =
     \<lparr>model = unfitted, is_trained = False, baseline_data = []\<rparr>"

text \<open>
  \<^verbatim>\<open>np.mean(metrics_data, axis=0).tolist()\<close>: the mean of every column; it raises on rows
  of unequal length.
\<close>

definition column_mean :: "real list list \<Rightarrow> real list option" where
  "column_mean rows =
     (case rows of
        [] \<Rightarrow> None
      | r # rs \<Rightarrow>
          if list_all (\<lambda>row. length row = length r) rs
          then Some (map (\<lambda>j. sum_list (map (\<lambda>row. row ! j) rows) / real (length rows))
                       [0..<length r])
          else None)"

datatype train_error = FitError | MeanError

text \<open>
  \<^verbatim>\<open>AnomalyDetector.train\<close>. The result is the detector after the call and the exception
  that left it, if any: \<open>is_trained\<close> is assigned after \<open>fit\<close> and before the baseline,
  so a failing mean leaves the old baseline beside a fitted model. A failing \<open>fit\<close> is
  taken to leave the detector as it was.
\<close>

definition train ::
  "(real list list \<Rightarrow> 'm option) \<Rightarrow> 'm AnomalyDetector \<Rightarrow> real list list \<Rightarrow>
     'm AnomalyDetector \<times> train_error option" where
  "train fit det metrics_data =
     (if length metrics_data > 20 then
        (case fit metrics_data of
           None \<Rightarrow> (det, Some FitError)
         | Some m \<Rightarrow>
             (let det1 = det\<lparr>model := m, is_trained := True\<rparr> in
              case column_mean metrics_data of
                None \<Rightarrow> (det1, Some MeanError)
              | Some b \<Rightarrow> (det1\<lparr>baseline_data := b\<rparr>, None)))
      else (det, None))"

text \<open>
  The body of the \<^verbatim>\<open>try\<close> block of \<^verbatim>\<open>AnomalyDetector.detect\<close>; \<open>None\<close> when
  \<open>predict\<close> or \<open>score_samples\<close> raises.
\<close>

definition score_metric ::
  "('m \<Rightarrow> real list \<Rightarrow> int option) \<Rightarrow> ('m \<Rightarrow> real list \<Rightarrow> real option) \<Rightarrow>
     'm \<Rightarrow> real list \<Rightarrow> (bool \<times> real) option" where
  "score_metric predict score_samples m metric =
     (case predict m metric of
        None \<Rightarrow> None
      | Some prediction \<Rightarrow>
          (case score_samples m metric of
             None \<Rightarrow> None
           | Some score \<Rightarrow> Some (prediction = - 1, 1 / (1 + exp score))))"

definition detect ::
  "('m \<Rightarrow> real list \<Rightarrow> int option) \<Rightarrow> ('m \<Rightarrow> real list \<Rightarrow> real option) \<Rightarrow>
     'm AnomalyDetector \<Rightarrow> real list \<Rightarrow> bool \<times> real" where
  "detect predict score_samples det metric =
     (if \<not> is_trained det then (False, 0.5)
      else (case score_metric predict score_samples (model det) metric of
              None \<Rightarrow> (False, 0.5)
            | Some r \<Rightarrow> r))"

section \<open>The data simulator and the demo endpoints\<close>

record DataSimulator =
  services :: "string list"
  failure_mode :: bool
  failure_service :: "string option"
  failure_start :: "string option"

definition DataSimulator_init :: DataSimulator where
  "DataSimulator_init =
     \<lparr>services = [''api-gateway'', ''auth-service'', ''database'', ''cache'', ''worker''],
      failure_mode = False, failure_service = None, failure_start = None\<rparr>"

text \<open>\<^verbatim>\<open>DataSimulator.inject_failure\<close> and \<^verbatim>\<open>DataSimulator.clear_failure\<close>.\<close>

definition sim_inject_failure :: "string \<Rightarrow> string \<Rightarrow> DataSimulator \<Rightarrow> DataSimulator" where
  "sim_inject_failure now svc sim =
     sim\<lparr>failure_mode := True, failure_service := Some svc, failure_start := Some now\<rparr>"

definition sim_clear_failure :: "DataSimulator \<Rightarrow> DataSimulator" where
  "sim_clear_failure sim =
     sim\<lparr>failure_mode := False, failure_service := None, failure_start := None\<rparr>"

text \<open>
  The test of \<^verbatim>\<open>generate_metric\<close> that decides whether a service's sample is drawn from
  the failure ranges: \<^verbatim>\<open>self.failure_mode and service == self.failure_service\<close>.
\<close>

definition failing :: "DataSimulator \<Rightarrow> string \<Rightarrow> bool" where
  "failing sim svc = (failure_mode sim \<and> Some svc = failure_service sim)"

record inject_response =
  message :: string
  affected :: string
  demo_status :: string

text \<open>\<^verbatim>\<open>POST /demo/inject-failure\<close>.\<close>

definition inject_failure ::
  "string \<Rightarrow> string \<Rightarrow> DataSimulator \<Rightarrow> (http_error + inject_response) \<times> DataSimulator" where
  "inject_failure now svc sim =
     (if svc \<notin> set (services sim) then (Inl (HTTPException 400), sim)
      else (Inr \<lparr>message = ''Failure injected into '' @ svc, affected = svc,
                 demo_status = ''active''\<rparr>,
            sim_inject_failure now svc sim))"

section \<open>The detection pass\<close>

text \<open>Line 334: the severity of a generated anomaly.\<close>

definition severity_of :: "real \<Rightarrow> string" where
  "severity_of c =
     (if c > 0.8 then ''critical'' else if c > 0.6 then ''high'' else ''medium'')"

definition metric_names :: "string list" where
  "metric_names = [''cpu'', ''memory'', ''latency'', ''error_rate'', ''requests_per_sec'']"

definition features_of :: "SystemMetric \<Rightarrow> real list" where
  "features_of m = [cpu m, memory m, latency m, error_rate m, requests_per_sec m]"

text \<open>
  One entry of the list comprehension of lines 325-328. Python's float division raises
  \<^verbatim>\<open>ZeroDivisionError\<close> on a zero divisor: \<open>None\<close>.
\<close>

definition deviation :: "real list \<Rightarrow> real list \<Rightarrow> nat \<Rightarrow> real option" where
  "deviation features baseline i =
     (if i < length baseline then
        (if baseline ! i + 1 = 0 then None
         else Some (\<bar>features ! i - baseline ! i\<bar> / (baseline ! i + 1)))
      else Some 0)"

definition deviations :: "real list \<Rightarrow> real list \<Rightarrow> real list option" where
  "deviations features baseline =
     those (map (deviation features baseline) [0..<length features])"

text \<open>\<^verbatim>\<open>np.argmax\<close>: the first index of the maximum; it raises on an empty list.\<close>

definition argmax :: "real list \<Rightarrow> nat option" where
  "argmax xs =
     (if xs = [] then None else Some (length (takeWhile (\<lambda>x. x \<noteq> Max (set xs)) xs)))"

text \<open>
  Lines 324-331 and the \<open>value\<close>/\<open>baseline\<close> arguments of lines 343-344: the index of
  the attributed dimension, its name, the reported value and the reported baseline.
\<close>

definition attribute :: "real list \<Rightarrow> real list \<Rightarrow> (nat \<times> string \<times> real \<times> real) option" where
  "attribute stored features =
     (let baseline = (if stored \<noteq> [] then stored else features) in
      case deviations features baseline of
        None \<Rightarrow> None
      | Some devs \<Rightarrow>
          (case argmax devs of
             None \<Rightarrow> None
           | Some i \<Rightarrow>
               if i < length metric_names then
                 Some (i, metric_names ! i, features ! i,
                       if i < length baseline then baseline ! i else features ! i)
               else None))"

text \<open>
  \<^verbatim>\<open>find_one({"service": service}, sort=[("timestamp", -1)])\<close>: a sample of the service
  with the greatest timestamp.
\<close>

definition latest_metric :: "string \<Rightarrow> SystemMetric list \<Rightarrow> SystemMetric option" where
  "latest_metric svc ms =
     (case rev (sort_key timestamp (filter (\<lambda>m. service m = svc) ms)) of
        [] \<Rightarrow> None
      | m # _ \<Rightarrow> Some m)"

text \<open>
  \<^verbatim>\<open>POST /anomalies/detect\<close>: the loop over the services. An exception inside the loop
  is answered with status 500; the anomalies stored before it stay stored.
\<close>

fun detect_loop ::
  "('m \<Rightarrow> real list \<Rightarrow> int option) \<Rightarrow> ('m \<Rightarrow> real list \<Rightarrow> real option) \<Rightarrow>
     'm AnomalyDetector \<Rightarrow> (nat \<Rightarrow> string) \<Rightarrow> string list \<Rightarrow> db \<Rightarrow> Anomaly list \<Rightarrow>
     (http_error + Anomaly list) \<times> db" where
  "detect_loop predict score_samples det uuid [] d detected = (Inr detected, d)"
| "detect_loop predict score_samples det uuid (svc # rest) d detected =
     (case latest_metric svc (metrics d) of
        None \<Rightarrow> detect_loop predict score_samples det uuid rest d detected
      | Some metric \<Rightarrow>
          (let features = features_of metric;
               (is_anomaly, conf) = detect predict score_samples det features
           in if is_anomaly then
                (case attribute (baseline_data det) features of
                   None \<Rightarrow> (Inl (HTTPException 500), d)
                 | Some (i, anomalous_metric, v, b) \<Rightarrow>
                     (let anomaly =
                        \<lparr>anomaly_id = uuid (length detected),
                         anomaly_timestamp = timestamp metric,
                         anomaly_service = svc,
                         metric_type = anomalous_metric,
                         severity = severity_of conf,
                         confidence = conf,
                         anomaly_description = ''Anomalous '' @ anomalous_metric @ '' detected'',
                         anomaly_value = v,
                         anomaly_baseline = b\<rparr>
                      in detect_loop predict score_samples det uuid rest
                           (d\<lparr>anomalies := anomalies d @ [anomaly]\<rparr>) (detected @ [anomaly])))
              else detect_loop predict score_samples det uuid rest d detected))"

definition detect_anomalies ::
  "('m \<Rightarrow> real list \<Rightarrow> int option) \<Rightarrow> ('m \<Rightarrow> real list \<Rightarrow> real option) \<Rightarrow>
     'm AnomalyDetector \<Rightarrow> (nat \<Rightarrow> string) \<Rightarrow> DataSimulator \<Rightarrow> db \<Rightarrow>
     (http_error + Anomaly list) \<times> db" where
  "detect_anomalies predict score_samples det uuid sim d =
     detect_loop predict score_samples det uuid (services sim) d []"

section \<open>The retrain loop\<close>

text \<open>\<^verbatim>\<open>db.metrics.find({}).sort("timestamp", -1).limit(200).to_list(200)\<close>.\<close>

definition recent_metrics :: "SystemMetric list \<Rightarrow> SystemMetric list" where
  "recent_metrics ms = take 200 (rev (sort_key timestamp ms))"

text \<open>
  One iteration of \<^verbatim>\<open>train_anomaly_detector\<close> after its sleep. An exception of
  \<open>train\<close> is logged and the loop goes on with the detector as the exception left it.
\<close>

definition retrain_cycle ::
  "(real list list \<Rightarrow> 'm option) \<Rightarrow> 'm AnomalyDetector \<Rightarrow> SystemMetric list \<Rightarrow>
     'm AnomalyDetector" where
  "retrain_cycle fit det stored =
     (let ms = recent_metrics stored in
      if length ms > 50 then fst (train fit det (map features_of ms)) else det)"

section \<open>Incidents\<close>

text \<open>
  \<^verbatim>\<open>POST /incidents\<close>: the stored document is the dump of an \<^verbatim>\<open>Incident\<close> built from
  the request with \<^verbatim>\<open>status\<close> forced to \<^verbatim>\<open>open\<close> and the optional fields at their
  defaults.
\<close>

definition new_incident :: "string \<Rightarrow> string \<Rightarrow> IncidentCreate \<Rightarrow> doc" where
  "new_incident uuid now inc =
     [''id'' \<mapsto> JStr uuid,
      ''title'' \<mapsto> JStr (title inc),
      ''status'' \<mapsto> JStr ''open'',
      ''severity'' \<mapsto> JStr (new_severity inc),
      ''service'' \<mapsto> JStr (new_service inc),
      ''root_cause'' \<mapsto> JNull,
      ''ai_explanation'' \<mapsto> JNull,
      ''recommendations'' \<mapsto> JNull,
      ''created_at'' \<mapsto> JStr now,
      ''resolved_at'' \<mapsto> JNull,
      ''anomaly_ids'' \<mapsto> JArr (map JStr (anomaly_ids inc))]"

definition create_incident :: "string \<Rightarrow> string \<Rightarrow> IncidentCreate \<Rightarrow> db \<Rightarrow> doc \<times> db" where
  "create_incident uuid now inc d =
     (let incident = new_incident uuid now inc
      in (incident, d\<lparr>incidents := incidents d @ [incident]\<rparr>))"

text \<open>
  \<^verbatim>\<open>PATCH /incidents/{incident_id}\<close>. The request body is an arbitrary JSON object; its
  keys are taken to be plain top-level field names (no dotted path, not \<^verbatim>\<open>_id\<close>), and
  an empty body to change nothing, as MongoDB 5.0 and later have it. Lines 426-427 replace
  a truthy
  \<^verbatim>\<open>resolved_at\<close> of the body by the clock reading; \<^verbatim>\<open>$set\<close> then overwrites the
  fields the body names. The answer is what \<^verbatim>\<open>find_one\<close> returns afterwards.
\<close>

definition stamp_resolved :: "string \<Rightarrow> doc \<Rightarrow> doc" where
  "stamp_resolved now updates =
     (case updates ''resolved_at'' of
        None \<Rightarrow> updates
      | Some v \<Rightarrow> if truthy v then updates(''resolved_at'' \<mapsto> JStr now) else updates)"

definition has_id :: "string \<Rightarrow> doc \<Rightarrow> bool" where
  "has_id i d = matches_str (d ''id'') i"

definition update_incident ::
  "string \<Rightarrow> string \<Rightarrow> doc \<Rightarrow> db \<Rightarrow> (http_error + doc option) \<times> db" where
  "update_incident now i updates d =
     (case update_one (has_id i) (\<lambda>old. old ++ stamp_resolved now updates) (incidents d) of
        None \<Rightarrow> (Inl (HTTPException 404), d)
      | Some incs \<Rightarrow> (Inr (find_one (has_id i) incs), d\<lparr>incidents := incs\<rparr>))"

section \<open>Recommendations\<close>

text \<open>\<^verbatim>\<open>str.find\<close> and \<^verbatim>\<open>str.rfind\<close> for a one-character pattern: an index, or \<open>-1\<close>.\<close>

fun index_of :: "char \<Rightarrow> string \<Rightarrow> nat option" where
  "index_of c [] = None"
| "index_of c (x # xs) = (if x = c then Some 0 else map_option Suc (index_of c xs))"

definition str_find :: "string \<Rightarrow> char \<Rightarrow> int" where
  "str_find s c = (case index_of c s of None \<Rightarrow> - 1 | Some i \<Rightarrow> int i)"

definition str_rfind :: "string \<Rightarrow> char \<Rightarrow> int" where
  "str_rfind s c =
     (case index_of c (rev s) of None \<Rightarrow> - 1 | Some i \<Rightarrow> int (length s) - 1 - int i)"

text \<open>\<^verbatim>\<open>s[a:b]\<close> for \<open>0 \<le> a\<close> and \<open>0 \<le> b\<close>.\<close>

definition slice :: "string \<Rightarrow> int \<Rightarrow> int \<Rightarrow> string" where
  "slice s a b = take (nat (b - a)) (drop (nat a) s)"

definition recommendation :: "string \<Rightarrow> string \<Rightarrow> string \<Rightarrow> string \<Rightarrow> json" where
  "recommendation a descr risk imp =
     JObj [(''action'', JStr a), (''description'', JStr descr),
           (''risk_level'', JStr risk), (''impact'', JStr imp)]"

text \<open>The list of lines 560-579 (the \<^verbatim>\<open>else\<close> branch).\<close>

definition default_recommendations :: "json list" where
  "default_recommendations =
     [recommendation ''Scale Resources''
        ''Increase CPU and memory allocation for the affected service''
        ''low'' ''Improved performance and reduced error rates'',
      recommendation ''Restart Service''
        ''Perform a rolling restart of the service instances''
        ''medium'' ''Clears memory leaks and resets connections'',
      recommendation ''Review Recent Changes''
        ''Investigate and potentially rollback recent deployments''
        ''low'' ''Identifies root cause if related to recent changes'']"

text \<open>The list of lines 581-588 (the \<^verbatim>\<open>except\<close> branch).\<close>

definition except_recommendations :: "json list" where
  "except_recommendations =
     [recommendation ''Scale Resources'' ''Increase CPU and memory allocation''
        ''low'' ''Improved performance'']"

text \<open>Lines 552-588; \<open>json_loads\<close> is \<^verbatim>\<open>json.loads\<close>, \<open>None\<close> when it raises.\<close>

definition parse_recommendations :: "(string \<Rightarrow> json option) \<Rightarrow> string \<Rightarrow> json" where
  "parse_recommendations json_loads response =
     (let json_start = str_find response CHR ''['';
          json_end = str_rfind response CHR '']'' + 1
      in if json_start \<ge> 0 \<and> json_end > json_start then
           (case json_loads (slice response json_start json_end) of
              Some v \<Rightarrow> v
            | None \<Rightarrow> JArr except_recommendations)
         else JArr default_recommendations)"

text \<open>
  \<^verbatim>\<open>for rec in recommendations\<close>: the items Python iterates over, \<open>None\<close> when the value
  is not iterable.
\<close>

fun py_iter :: "json \<Rightarrow> json list option" where
  "py_iter (JArr xs) = Some xs"
| "py_iter (JObj kvs) = Some (map (\<lambda>kv. JStr (fst kv)) kvs)"
| "py_iter (JStr s) = Some (map (\<lambda>c. JStr [c]) s)"
| "py_iter _ = None"

text \<open>
  \<^verbatim>\<open>rec[k]\<close> passed to a \<^verbatim>\<open>str\<close> field of \<^verbatim>\<open>Action\<close>: \<open>None\<close> when the subscript
  raises or the value is not a string.
\<close>

fun rec_field :: "json \<Rightarrow> string \<Rightarrow> string option" where
  "rec_field (JObj kvs) k = (case map_of kvs k of Some (JStr s) \<Rightarrow> Some s | _ \<Rightarrow> None)"
| "rec_field _ k = None"

definition make_action :: "string \<Rightarrow> string \<Rightarrow> string \<Rightarrow> json \<Rightarrow> Action option" where
  "make_action uuid now i r =
     (case (rec_field r ''action'', rec_field r ''description'',
            rec_field r ''risk_level'', rec_field r ''impact'') of
        (Some a, Some descr, Some risk, Some imp) \<Rightarrow>
          Some \<lparr>action_id = uuid, incident_id = i, action = a, description = descr,
                risk_level = risk, impact = imp, status = ''pending'',
                approved_by = None, executed_at = None, created_at = now\<rparr>
      | _ \<Rightarrow> None)"

text \<open>
  The loop of lines 597-608: \<open>stamp k\<close> is the identifier and the clock reading of the
  \<open>k\<close>-th action of the call. The flag is \<open>False\<close> when an item raised; the actions
  inserted before it stay inserted.
\<close>

fun create_actions ::
  "(nat \<Rightarrow> string \<times> string) \<Rightarrow> string \<Rightarrow> nat \<Rightarrow> json list \<Rightarrow> Action list \<Rightarrow>
     bool \<times> Action list" where
  "create_actions stamp i k [] acts = (True, acts)"
| "create_actions stamp i k (r # rs) acts =
     (case make_action (fst (stamp k)) (snd (stamp k)) i r of
        None \<Rightarrow> (False, acts)
      | Some a \<Rightarrow> create_actions stamp i (Suc k) rs (acts @ [a]))"

text \<open>
  \<^verbatim>\<open>POST /ai/recommend\<close>. \<open>llm\<close> is the answer of the language model to the assembled
  prompt, \<open>None\<close> when the call raises. The prompt reads the incident's \<^verbatim>\<open>title\<close>,
  \<^verbatim>\<open>service\<close> and \<^verbatim>\<open>severity\<close> by subscript.
\<close>

definition generate_recommendations ::
  "(string \<Rightarrow> json option) \<Rightarrow> (nat \<Rightarrow> string \<times> string) \<Rightarrow> string option \<Rightarrow> string \<Rightarrow> db \<Rightarrow>
     (http_error + json) \<times> db" where
  "generate_recommendations json_loads stamp llm i d =
     (case find_one (has_id i) (incidents d) of
        None \<Rightarrow> (Inl (HTTPException 404), d)
      | Some incident \<Rightarrow>
          if incident ''title'' = None \<or> incident ''service'' = None \<or>
             incident ''severity'' = None
          then (Inl (HTTPException 500), d)
          else
            (case llm of
               None \<Rightarrow> (Inl (HTTPException 500), d)
             | Some response \<Rightarrow>
                 (let recommendations = parse_recommendations json_loads response;
                      incs = (case update_one (has_id i)
                                     (\<lambda>old. old(''recommendations'' \<mapsto> recommendations))
                                     (incidents d) of
                                None \<Rightarrow> incidents d
                              | Some xs \<Rightarrow> xs);
                      d1 = d\<lparr>incidents := incs\<rparr>
                  in case py_iter recommendations of
                       None \<Rightarrow> (Inl (HTTPException 500), d1)
                     | Some items \<Rightarrow>
                         (case create_actions stamp i 0 items (actions d1) of
                            (ok, acts) \<Rightarrow>
                              (if ok then Inr recommendations else Inl (HTTPException 500),
                               d1\<lparr>actions := acts\<rparr>)))))"

section \<open>Actions\<close>

text \<open>\<^verbatim>\<open>POST /actions/{action_id}/approve\<close> and \<^verbatim>\<open>POST /actions/{action_id}/reject\<close>.\<close>

definition approve_action ::
  "string \<Rightarrow> string \<Rightarrow> string \<Rightarrow> db \<Rightarrow> (http_error + Action option) \<times> db" where
  "approve_action now i by d =
     (case update_one (\<lambda>a. action_id a = i)
             (\<lambda>a. a\<lparr>status := ''approved'', approved_by := Some by, executed_at := Some now\<rparr>)
             (actions d) of
        None \<Rightarrow> (Inl (HTTPException 404), d)
      | Some acts \<Rightarrow> (Inr (find_one (\<lambda>a. action_id a = i) acts), d\<lparr>actions := acts\<rparr>))"

definition reject_action :: "string \<Rightarrow> db \<Rightarrow> (http_error + Action option) \<times> db" where
  "reject_action i d =
     (case update_one (\<lambda>a. action_id a = i) (\<lambda>a. a\<lparr>status := ''rejected''\<rparr>) (actions d) of
        None \<Rightarrow> (Inl (HTTPException 404), d)
      | Some acts \<Rightarrow> (Inr (find_one (\<lambda>a. action_id a = i) acts), d\<lparr>actions := acts\<rparr>))"

section \<open>Dashboard statistics\<close>

record service_health =
  health_service :: string
  health_status :: string
  health_cpu :: real
  health_memory :: real
  health_latency :: real
  health_error_rate :: real

record dashboard_stats =
  active_incidents :: nat
  total_incidents :: nat
  recent_anomalies :: nat
  pending_actions :: nat
  service_healths :: "service_health list"
  anomaly_detector_status :: string

definition health_of :: "SystemMetric \<Rightarrow> string" where
  "health_of m =
     (if cpu m > 80 \<or> memory m > 80 \<or> error_rate m > 10 then ''critical''
      else if cpu m > 60 \<or> memory m > 60 \<or> error_rate m > 5 then ''warning''
      else ''healthy'')"

definition health_entries :: "string list \<Rightarrow> SystemMetric list \<Rightarrow> service_health list" where
  "health_entries svcs ms =
     concat (map (\<lambda>svc. case latest_metric svc ms of
                          None \<Rightarrow> []
                        | Some m \<Rightarrow>
                            [\<lparr>health_service = svc, health_status = health_of m,
                              health_cpu = cpu m, health_memory = memory m,
                              health_latency = latency m,
                              health_error_rate = error_rate m\<rparr>]) svcs)"

text \<open>
  \<^verbatim>\<open>GET /stats/dashboard\<close>; \<open>since_24h\<close> is the ISO string of the clock reading less 24
  hours.
\<close>

definition get_dashboard_stats ::
  "string \<Rightarrow> 'm AnomalyDetector \<Rightarrow> DataSimulator \<Rightarrow> db \<Rightarrow> dashboard_stats" where
  "get_dashboard_stats since_24h det sim d =
     \<lparr>active_incidents = count_documents (\<lambda>x. matches_str (x ''status'') ''open'') (incidents d),
      total_incidents = count_documents (\<lambda>x. True) (incidents d),
      recent_anomalies = count_documents (\<lambda>a. anomaly_timestamp a \<ge> since_24h) (anomalies d),
      pending_actions = count_documents (\<lambda>a. status a = ''pending'') (actions d),
      service_healths = health_entries (services sim) (metrics d),
      anomaly_detector_status = (if is_trained det then ''trained'' else ''training'')\<rparr>"

section \<open>Example inputs\<close>

text \<open>Concrete inputs at which the theorems below are instantiated.\<close>

definition example_fit :: "real list list \<Rightarrow> nat option" where
  "example_fit rows = Some (length rows)"

definition example_rows :: "nat \<Rightarrow> real list list" where
  "example_rows n = replicate n [30, 40, 100, 1, 300]"

definition example_metric :: SystemMetric where
  "example_metric =
     \<lparr>timestamp = ''2024-01-01T00:00:00+00:00'', service = ''api-gateway'',
      cpu = 90, memory = 40, latency = 100, error_rate = 1, requests_per_sec = 300\<rparr>"

definition example_detector :: "nat AnomalyDetector" where
  "example_detector = \<lparr>model = 1, is_trained = True, baseline_data = [30, 40, 100, 1, 300]\<rparr>"

definition example_action :: Action where
  "example_action =
     \<lparr>action_id = ''a1'', incident_id = ''i1'', action = ''Restart Service'',
      description = ''Perform a rolling restart of the service instances'',
      risk_level = ''medium'', impact = ''Clears memory leaks and resets connections'',
      status = ''pending'', approved_by = None, executed_at = None,
      created_at = ''2024-01-01T00:00:05+00:00''\<rparr>"

definition example_incident :: doc where
  "example_incident =
     new_incident ''i1'' ''2024-01-01T00:00:01+00:00''
       \<lparr>title = ''High latency'', new_severity = ''high'', new_service = ''api-gateway'',
        anomaly_ids = []\<rparr>"

definition example_db :: db where
  "example_db =
     \<lparr>metrics = [example_metric], anomalies = [], incidents = [example_incident],
      actions = [example_action]\<rparr>"

text \<open>A store whose only sample deviates most in its memory gauge.\<close>

definition example_memory_db :: db where
  "example_memory_db =
     \<lparr>metrics = [example_metric\<lparr>cpu := 30, memory := 90\<rparr>], anomalies = [],
      incidents = [], actions = []\<rparr>"

definition example_stamp :: "nat \<Rightarrow> string \<times> string" where
  "example_stamp k = (replicate (Suc k) CHR ''u'', ''2024-01-01T00:00:09+00:00'')"

text \<open>
  A decoder that raises on every input; \<^verbatim>\<open>json.loads\<close> raises on the span
  \<^verbatim>\<open>[oops]\<close> of the examples.
\<close>

definition failing_loads :: "string \<Rightarrow> json option" where
  "failing_loads s = None"

section \<open>Auxiliary facts\<close>

lemma update_one_first:
  "\<forall>x\<in>set xs. \<not> p x \<Longrightarrow> p a \<Longrightarrow> update_one p f (xs @ a # ys) = Some (xs @ f a # ys)"
  by (induction xs) auto

lemma find_one_first:
  "\<forall>x\<in>set xs. \<not> p x \<Longrightarrow> p a \<Longrightarrow> find_one p (xs @ a # ys) = Some a"
  by (induction xs) auto

lemma update_one_no_match:
  "\<forall>x\<in>set xs. \<not> p x \<Longrightarrow> update_one p f xs = None"
  by (induction xs) auto

lemma those_map_Some:
  "\<forall>x\<in>set xs. f x = Some (g x) \<Longrightarrow> those (map f xs) = Some (map g xs)"
  by (induction xs) auto

lemma those_map_None:
  "x \<in> set xs \<Longrightarrow> f x = None \<Longrightarrow> those (map f xs) = None"
  by (induction xs) (auto split: option.splits)

lemma those_map_SomeD:
  "those (map f xs) = Some ys \<Longrightarrow> ys = map (\<lambda>x. the (f x)) xs \<and> (\<forall>x\<in>set xs. f x \<noteq> None)"
  by (induction xs arbitrary: ys) (auto split: option.splits)

lemma upt_0_5: "[0..<5] = [0, 1, 2, 3, 4::nat]"
  by (simp add: upt_rec)

subsection \<open>Actions\<close>

lemma approve_action_first:
  assumes "actions d = xs @ a # ys" "\<forall>x\<in>set xs. action_id x \<noteq> i" "action_id a = i"
  shows "approve_action now i by d =
           (Inr (Some (a\<lparr>status := ''approved'', approved_by := Some by,
                          executed_at := Some now\<rparr>)),
            d\<lparr>actions := xs @ a\<lparr>status := ''approved'', approved_by := Some by,
                                  executed_at := Some now\<rparr> # ys\<rparr>)"
  using assms by (simp add: approve_action_def update_one_first find_one_first)

lemma reject_action_first:
  assumes "actions d = xs @ a # ys" "\<forall>x\<in>set xs. action_id x \<noteq> i" "action_id a = i"
  shows "reject_action i d =
           (Inr (Some (a\<lparr>status := ''rejected''\<rparr>)),
            d\<lparr>actions := xs @ a\<lparr>status := ''rejected''\<rparr> # ys\<rparr>)"
  using assms by (simp add: reject_action_def update_one_first find_one_first)

subsection \<open>Incidents\<close>

lemma stamp_resolved_field:
  "(old ++ stamp_resolved now updates) ''resolved_at'' =
     (case updates ''resolved_at'' of
        None \<Rightarrow> old ''resolved_at''
      | Some v \<Rightarrow> if truthy v then Some (JStr now) else Some v)"
  by (auto simp: stamp_resolved_def map_add_def split: option.splits)

lemma stamp_resolved_other:
  "k \<noteq> ''resolved_at'' \<Longrightarrow>
   (old ++ stamp_resolved now updates) k =
     (case updates k of None \<Rightarrow> old k | Some v \<Rightarrow> Some v)"
  by (auto simp: stamp_resolved_def map_add_def split: option.splits)

lemma update_incident_first:
  assumes "incidents d = xs @ old # ys" "\<forall>x\<in>set xs. \<not> has_id i x" "has_id i old"
  shows "snd (update_incident now i updates d) =
           d\<lparr>incidents := xs @ (old ++ stamp_resolved now updates) # ys\<rparr>"
    and "updates ''id'' = None \<Longrightarrow>
         fst (update_incident now i updates d) =
           Inr (Some (old ++ stamp_resolved now updates))"
proof -
  show "snd (update_incident now i updates d) =
          d\<lparr>incidents := xs @ (old ++ stamp_resolved now updates) # ys\<rparr>"
    using assms by (simp add: update_incident_def update_one_first)
  assume "updates ''id'' = None"
  then have "has_id i (old ++ stamp_resolved now updates)"
    using assms(3) by (simp add: has_id_def stamp_resolved_other)
  then show "fst (update_incident now i updates d) =
               Inr (Some (old ++ stamp_resolved now updates))"
    using assms by (simp add: update_incident_def update_one_first find_one_first)
qed

subsection \<open>Recommendations\<close>

lemma parse_no_span:
  "str_find r CHR ''['' < 0 \<or> str_rfind r CHR '']'' + 1 \<le> str_find r CHR ''['' \<Longrightarrow>
   parse_recommendations L r = JArr default_recommendations"
  by (auto simp: parse_recommendations_def Let_def)

lemma parse_span_fails:
  "0 \<le> str_find r CHR ''['' \<Longrightarrow> str_find r CHR ''['' < str_rfind r CHR '']'' + 1 \<Longrightarrow>
   L (slice r (str_find r CHR ''['') (str_rfind r CHR '']'' + 1)) = None \<Longrightarrow>
   parse_recommendations L r = JArr except_recommendations"
  by (auto simp: parse_recommendations_def Let_def)

lemma make_action_recommendation:
  "make_action u t i (recommendation a ds r im) =
     Some \<lparr>action_id = u, incident_id = i, action = a, description = ds, risk_level = r,
           impact = im, status = ''pending'', approved_by = None, executed_at = None,
           created_at = t\<rparr>"
  by (simp add: make_action_def recommendation_def)

lemma create_actions_default:
  "create_actions stamp i 0 default_recommendations acts =
     (True, acts @
        map (\<lambda>(k, a, ds, r, im).
               \<lparr>action_id = fst (stamp k), incident_id = i, action = a, description = ds,
                risk_level = r, impact = im, status = ''pending'', approved_by = None,
                executed_at = None, created_at = snd (stamp k)\<rparr>)
          [(0, ''Scale Resources'',
            ''Increase CPU and memory allocation for the affected service'',
            ''low'', ''Improved performance and reduced error rates''),
           (1, ''Restart Service'',
            ''Perform a rolling restart of the service instances'',
            ''medium'', ''Clears memory leaks and resets connections''),
           (2, ''Review Recent Changes'',
            ''Investigate and potentially rollback recent deployments'',
            ''low'', ''Identifies root cause if related to recent changes'')])"
  by (simp add: default_recommendations_def make_action_recommendation numeral_2_eq_2)

lemma create_actions_except:
  "create_actions stamp i 0 except_recommendations acts =
     (True, acts @
        [\<lparr>action_id = fst (stamp 0), incident_id = i, action = ''Scale Resources'',
          description = ''Increase CPU and memory allocation'', risk_level = ''low'',
          impact = ''Improved performance'', status = ''pending'', approved_by = None,
          executed_at = None, created_at = snd (stamp 0)\<rparr>])"
  by (simp add: except_recommendations_def make_action_recommendation)

lemma generate_recommendations_first:
  assumes "incidents d = xs @ old # ys" "\<forall>x\<in>set xs. \<not> has_id i x" "has_id i old"
    and "old ''title'' \<noteq> None" "old ''service'' \<noteq> None" "old ''severity'' \<noteq> None"
    and "parse_recommendations L r = JArr recs"
    and "create_actions stamp i 0 recs (actions d) = (True, acts)"
  shows "generate_recommendations L stamp (Some r) i d =
           (Inr (JArr recs),
            d\<lparr>incidents := xs @ old(''recommendations'' \<mapsto> JArr recs) # ys,
              actions := acts\<rparr>)"
  using assms
  by (simp add: generate_recommendations_def find_one_first update_one_first Let_def)

subsection \<open>Attribution\<close>

lemma argmax_first_max:
  assumes "xs \<noteq> []"
  shows "\<exists>i. argmax xs = Some i \<and> i < length xs \<and>
             (\<forall>j<length xs. xs ! j \<le> xs ! i) \<and> (\<forall>j<i. xs ! j < xs ! i)"
proof -
  define M where "M = Max (set xs)"
  define i where "i = length (takeWhile (\<lambda>x. x \<noteq> M) xs)"
  have Min: "M \<in> set xs" unfolding M_def using assms by (intro Max_in) auto
  have ub: "\<And>x. x \<in> set xs \<Longrightarrow> x \<le> M" unfolding M_def by (intro Max_ge) auto
  have "takeWhile (\<lambda>x. x \<noteq> M) xs \<noteq> xs" using Min by auto
  then have lt: "i < length xs"
    unfolding i_def
    by (metis length_takeWhile_le le_neq_implies_less takeWhile_eq_take take_all_iff order_refl)
  then have at: "xs ! i = M"
    unfolding i_def using nth_length_takeWhile[of "\<lambda>x. x \<noteq> M" xs] by simp
  have before: "xs ! j < M" if "j < i" for j
  proof -
    from that have "takeWhile (\<lambda>x. x \<noteq> M) xs ! j \<in> set (takeWhile (\<lambda>x. x \<noteq> M) xs)"
      unfolding i_def by (intro nth_mem)
    then have "xs ! j \<in> set xs \<and> xs ! j \<noteq> M"
      using that takeWhile_nth[of j "\<lambda>x. x \<noteq> M" xs] set_takeWhileD[of _ "\<lambda>x. x \<noteq> M" xs]
      unfolding i_def by metis
    then show ?thesis using ub[of "xs ! j"] by simp
  qed
  have "argmax xs = Some i" using assms by (simp add: argmax_def i_def M_def)
  then show ?thesis using lt at before ub by auto
qed

lemma deviations_defined:
  assumes "\<forall>i<length features. i < length baseline \<longrightarrow> baseline ! i + 1 \<noteq> 0"
  shows "deviations features baseline =
           Some (map (\<lambda>i. if i < length baseline
                          then \<bar>features ! i - baseline ! i\<bar> / (baseline ! i + 1) else 0)
                   [0..<length features])"
  unfolding deviations_def using assms
  by (intro those_map_Some) (auto simp: deviation_def)

lemma deviations_raises:
  assumes "i < length features" "i < length baseline" "baseline ! i + 1 = 0"
  shows "deviations features baseline = None"
  unfolding deviations_def
  by (rule those_map_None[where x = i]) (use assms in \<open>auto simp: deviation_def\<close>)

lemma deviations_SomeD:
  assumes "deviations features baseline = Some devs"
  shows "devs = map (\<lambda>i. if i < length baseline
                          then \<bar>features ! i - baseline ! i\<bar> / (baseline ! i + 1) else 0)
                  [0..<length features]"
    and "\<forall>i<length features. i < length baseline \<longrightarrow> baseline ! i + 1 \<noteq> 0"
proof -
  from assms have d: "devs = map (\<lambda>i. the (deviation features baseline i)) [0..<length features]"
    and n: "\<forall>i\<in>set [0..<length features]. deviation features baseline i \<noteq> None"
    unfolding deviations_def using those_map_SomeD by blast+
  from n show nz: "\<forall>i<length features. i < length baseline \<longrightarrow> baseline ! i + 1 \<noteq> 0"
    by (auto simp: deviation_def split: if_splits)
  show "devs = map (\<lambda>i. if i < length baseline
                          then \<bar>features ! i - baseline ! i\<bar> / (baseline ! i + 1) else 0)
                  [0..<length features]"
    unfolding d using nz by (auto simp: deviation_def)
qed

lemma attribute_stored:
  assumes lf: "length features = 5" and lb: "length stored = 5"
    and nz: "\<forall>b\<in>set stored. b \<noteq> - 1"
  shows "\<exists>i<5. attribute stored features =
                  Some (i, metric_names ! i, features ! i, stored ! i) \<and>
          (\<forall>j<5. \<bar>features ! j - stored ! j\<bar> / (stored ! j + 1)
                   \<le> \<bar>features ! i - stored ! i\<bar> / (stored ! i + 1)) \<and>
          (\<forall>j<i. \<bar>features ! j - stored ! j\<bar> / (stored ! j + 1)
                   < \<bar>features ! i - stored ! i\<bar> / (stored ! i + 1))"
proof -
  let ?dev = "\<lambda>i. \<bar>features ! i - stored ! i\<bar> / (stored ! i + 1)"
  let ?devs = "map ?dev [0..<5]"
  have ne: "stored \<noteq> []" using lb by auto
  have "\<forall>i<5. stored ! i + 1 \<noteq> 0"
    using nz lb by (metis add.commute add_eq_0_iff nth_mem)
  then have d: "deviations features stored = Some ?devs"
    using deviations_defined[of features stored] lf lb by simp
  obtain i where i: "argmax ?devs = Some i" "i < length ?devs"
      "\<forall>j<length ?devs. ?devs ! j \<le> ?devs ! i" "\<forall>j<i. ?devs ! j < ?devs ! i"
    using argmax_first_max[of ?devs] by auto
  have i5: "i < 5" using i(2) by simp
  have "attribute stored features = Some (i, metric_names ! i, features ! i, stored ! i)"
    using ne d i(1) i5 lb by (simp add: attribute_def metric_names_def)
  moreover have "\<forall>j<5. ?dev j \<le> ?dev i" using i(3) i5 by simp
  moreover have "\<forall>j<i. ?dev j < ?dev i" using i(4) i5 by simp
  ultimately show ?thesis using i5 by blast
qed

lemma attribute_fallback:
  assumes lf: "length features = 5" and nz: "\<forall>f\<in>set features. f \<noteq> - 1"
  shows "deviations features features = Some [0, 0, 0, 0, 0] \<and>
         attribute [] features = Some (0, ''cpu'', features ! 0, features ! 0)"
proof -
  have "\<forall>i<5. features ! i + 1 \<noteq> 0"
    using nz lf by (metis add.commute add_eq_0_iff nth_mem)
  then have d: "deviations features features = Some (map (\<lambda>i. 0) [0..<5])"
    using deviations_defined[of features features] lf
    by (simp add: map_eq_conv)
  have a: "argmax [0, 0, 0, 0, 0::real] = Some 0" by (simp add: argmax_def)
  show ?thesis using d a lf by (simp add: attribute_def upt_0_5 metric_names_def)
qed

lemma attribute_SomeD:
  assumes a: "attribute stored features = Some (i, nm, v, b)" and lf: "length features = 5"
  shows "i < 5 \<and> nm = metric_names ! i \<and> v = features ! i \<and>
         (length stored = 5 \<longrightarrow>
            b = stored ! i \<and>
            (\<forall>j<5. \<bar>features ! j - stored ! j\<bar> / (stored ! j + 1)
                     \<le> \<bar>features ! i - stored ! i\<bar> / (stored ! i + 1)) \<and>
            (\<forall>j<i. \<bar>features ! j - stored ! j\<bar> / (stored ! j + 1)
                     < \<bar>features ! i - stored ! i\<bar> / (stored ! i + 1))) \<and>
         (stored = [] \<longrightarrow> i = 0 \<and> nm = ''cpu'' \<and> b = features ! 0)"
proof -
  define baseline where "baseline = (if stored \<noteq> [] then stored else features)"
  from a obtain devs where d: "deviations features baseline = Some devs"
    and am: "argmax devs = Some i" and i5: "i < length metric_names"
    and res: "nm = metric_names ! i" "v = features ! i"
      "b = (if i < length baseline then baseline ! i else features ! i)"
    unfolding attribute_def baseline_def
    by (auto simp: Let_def split: option.splits if_splits)
  let ?dev = "\<lambda>j. if j < length baseline
                   then \<bar>features ! j - baseline ! j\<bar> / (baseline ! j + 1) else 0"
  have devs: "devs = map ?dev [0..<5]"
    using deviations_SomeD(1)[OF d] lf by simp
  have nz: "\<forall>j<5. j < length baseline \<longrightarrow> baseline ! j + 1 \<noteq> 0"
    using deviations_SomeD(2)[OF d] lf by simp
  obtain k where k: "argmax devs = Some k" "k < length devs"
      "\<forall>j<length devs. devs ! j \<le> devs ! k" "\<forall>j<k. devs ! j < devs ! k"
    using argmax_first_max[of devs] devs by auto
  have ki: "k = i" using k(1) am by simp
  have i5': "i < 5" using k(2) ki devs by simp
  have dj: "devs ! j = ?dev j" if "j < 5" for j
    unfolding devs using that by simp
  have ld: "length devs = 5" unfolding devs by simp
  have mx: "\<forall>j<5. ?dev j \<le> ?dev i"
  proof (intro allI impI)
    fix j :: nat assume j: "j < 5"
    then have "devs ! j \<le> devs ! i" using k(3) ki ld by simp
    then show "?dev j \<le> ?dev i" using dj[OF j] dj[OF i5'] by simp
  qed
  have first: "\<forall>j<i. ?dev j < ?dev i"
  proof (intro allI impI)
    fix j assume "j < i"
    then have "devs ! j < devs ! i" "j < 5" using k(4) ki i5' by auto
    then show "?dev j < ?dev i" using dj[of j] dj[of i] i5' by simp
  qed
  have stored5: "length stored = 5 \<Longrightarrow> baseline = stored"
    unfolding baseline_def by auto
  have part1: "length stored = 5 \<longrightarrow>
            b = stored ! i \<and>
            (\<forall>j<5. \<bar>features ! j - stored ! j\<bar> / (stored ! j + 1)
                     \<le> \<bar>features ! i - stored ! i\<bar> / (stored ! i + 1)) \<and>
            (\<forall>j<i. \<bar>features ! j - stored ! j\<bar> / (stored ! j + 1)
                     < \<bar>features ! i - stored ! i\<bar> / (stored ! i + 1))"
  proof
    assume l: "length stored = 5"
    then have bs: "baseline = stored" by (rule stored5)
    show "b = stored ! i \<and>
            (\<forall>j<5. \<bar>features ! j - stored ! j\<bar> / (stored ! j + 1)
                     \<le> \<bar>features ! i - stored ! i\<bar> / (stored ! i + 1)) \<and>
            (\<forall>j<i. \<bar>features ! j - stored ! j\<bar> / (stored ! j + 1)
                     < \<bar>features ! i - stored ! i\<bar> / (stored ! i + 1))"
      using mx first res(3) i5' l unfolding bs by auto
  qed
  have part2: "stored = [] \<longrightarrow> i = 0 \<and> nm = ''cpu'' \<and> b = features ! 0"
  proof
    assume e: "stored = []"
    then have bf: "baseline = features" unfolding baseline_def by simp
    have "i = 0"
    proof (rule ccontr)
      assume "i \<noteq> 0"
      then have "0 < i" by simp
      with first have "?dev 0 < ?dev i" by blast
      then show False using i5' lf unfolding bf by simp
    qed
    then show "i = 0 \<and> nm = ''cpu'' \<and> b = features ! 0"
      using res lf unfolding bf by (simp add: metric_names_def)
  qed
  show ?thesis using i5' res(1,2) part1 part2 by blast
qed

subsection \<open>The detection pass and the retrain loop\<close>

lemma detect_loop_severity:
  "detect_loop P S det uuid svcs d acc = (Inr found, d') \<Longrightarrow>
   \<forall>a\<in>set acc. severity a = severity_of (confidence a) \<Longrightarrow>
   \<forall>a\<in>set found. severity a = severity_of (confidence a)"
proof (induction svcs arbitrary: d acc)
  case Nil
  then show ?case by simp
next
  case (Cons svc rest)
  show ?case
  proof (cases "latest_metric svc (metrics d)")
    case None
    with Cons show ?thesis by simp
  next
    case (Some metric)
    obtain is_anomaly conf where dt: "detect P S det (features_of metric) = (is_anomaly, conf)"
      by (cases "detect P S det (features_of metric)")
    show ?thesis
    proof (cases is_anomaly)
      case False
      with Cons Some dt show ?thesis by simp
    next
      case True
      show ?thesis
      proof (cases "attribute (baseline_data det) (features_of metric)")
        case None
        with Cons.prems Some dt True show ?thesis by simp
      next
        case (Some t)
        obtain i nm v b where t: "t = (i, nm, v, b)" by (cases t)
        from Cons.prems \<open>latest_metric svc (metrics d) = Some metric\<close> dt True Some t
        show ?thesis
          by (intro Cons.IH[where acc="acc @ [_]"]) (auto simp: Let_def)
      qed
    qed
  qed
qed

lemma detect_loop_attributed:
  "detect_loop P S det uuid svcs d acc = (Inr found, d') \<Longrightarrow>
   \<forall>a\<in>set acc. \<exists>m i. latest_metric (anomaly_service a) (metrics d) = Some m \<and>
      fst (detect P S det (features_of m)) \<and>
      attribute (baseline_data det) (features_of m) =
        Some (i, metric_type a, anomaly_value a, anomaly_baseline a) \<Longrightarrow>
   \<forall>a\<in>set found. \<exists>m i. latest_metric (anomaly_service a) (metrics d) = Some m \<and>
      fst (detect P S det (features_of m)) \<and>
      attribute (baseline_data det) (features_of m) =
        Some (i, metric_type a, anomaly_value a, anomaly_baseline a)"
proof (induction svcs arbitrary: d acc)
  case Nil
  then show ?case by simp
next
  case (Cons svc rest)
  show ?case
  proof (cases "latest_metric svc (metrics d)")
    case None
    with Cons show ?thesis by simp
  next
    case (Some metric)
    obtain is_anomaly conf where dt: "detect P S det (features_of metric) = (is_anomaly, conf)"
      by (cases "detect P S det (features_of metric)")
    show ?thesis
    proof (cases is_anomaly)
      case False
      with Cons Some dt show ?thesis by simp
    next
      case True
      show ?thesis
      proof (cases "attribute (baseline_data det) (features_of metric)")
        case None
        with Cons.prems Some dt True show ?thesis by simp
      next
        case (Some t)
        obtain i nm v b where t: "t = (i, nm, v, b)" by (cases t)
        let ?a = "\<lparr>anomaly_id = uuid (length acc), anomaly_timestamp = timestamp metric,
                    anomaly_service = svc, metric_type = nm, severity = severity_of conf,
                    confidence = conf,
                    anomaly_description = ''Anomalous '' @ nm @ '' detected'',
                    anomaly_value = v, anomaly_baseline = b\<rparr>"
        let ?d = "d\<lparr>anomalies := anomalies d @ [?a]\<rparr>"
        have run: "detect_loop P S det uuid rest ?d (acc @ [?a]) = (Inr found, d')"
          using Cons.prems(1) \<open>latest_metric svc (metrics d) = Some metric\<close> dt True Some t
          by (simp add: Let_def)
        have inv: "\<forall>a\<in>set (acc @ [?a]). \<exists>m i.
              latest_metric (anomaly_service a) (metrics ?d) = Some m \<and>
              fst (detect P S det (features_of m)) \<and>
              attribute (baseline_data det) (features_of m) =
                Some (i, metric_type a, anomaly_value a, anomaly_baseline a)"
          using Cons.prems(2) \<open>latest_metric svc (metrics d) = Some metric\<close> dt True Some t
          by auto
        from Cons.IH[OF run inv] show ?thesis by simp
      qed
    qed
  qed
qed

lemma detect_loop_complete:
  "detect_loop P S det uuid svcs d acc = (Inr found, d') \<Longrightarrow>
   set acc \<subseteq> set found \<and>
   (\<forall>svc\<in>set svcs. \<forall>m. latest_metric svc (metrics d) = Some m \<and>
        fst (detect P S det (features_of m)) \<longrightarrow>
        (\<exists>a\<in>set found. anomaly_service a = svc))"
proof (induction svcs arbitrary: d acc)
  case Nil
  then show ?case by simp
next
  case (Cons svc rest)
  show ?case
  proof (cases "latest_metric svc (metrics d)")
    case None
    with Cons show ?thesis by simp
  next
    case (Some metric)
    obtain is_anomaly conf where dt: "detect P S det (features_of metric) = (is_anomaly, conf)"
      by (cases "detect P S det (features_of metric)")
    show ?thesis
    proof (cases is_anomaly)
      case False
      with Cons Some dt show ?thesis by simp
    next
      case True
      show ?thesis
      proof (cases "attribute (baseline_data det) (features_of metric)")
        case None
        with Cons.prems Some dt True show ?thesis by simp
      next
        case (Some t)
        obtain i nm v b where t: "t = (i, nm, v, b)" by (cases t)
        let ?a = "\<lparr>anomaly_id = uuid (length acc), anomaly_timestamp = timestamp metric,
                    anomaly_service = svc, metric_type = nm, severity = severity_of conf,
                    confidence = conf,
                    anomaly_description = ''Anomalous '' @ nm @ '' detected'',
                    anomaly_value = v, anomaly_baseline = b\<rparr>"
        let ?d = "d\<lparr>anomalies := anomalies d @ [?a]\<rparr>"
        have run: "detect_loop P S det uuid rest ?d (acc @ [?a]) = (Inr found, d')"
          using Cons.prems(1) \<open>latest_metric svc (metrics d) = Some metric\<close> dt True Some t
          by (simp add: Let_def)
        from Cons.IH[OF run]
        have sub: "set (acc @ [?a]) \<subseteq> set found"
          and rest: "\<forall>s\<in>set rest. \<forall>m. latest_metric s (metrics d) = Some m \<and>
                       fst (detect P S det (features_of m)) \<longrightarrow>
                       (\<exists>a\<in>set found. anomaly_service a = s)"
          by simp_all
        from sub have "?a \<in> set found" by simp
        then have "\<exists>a\<in>set found. anomaly_service a = svc"
          by (intro bexI[of _ ?a]) simp_all
        with sub rest show ?thesis by auto
      qed
    qed
  qed
qed

lemma length_recent_metrics: "length (recent_metrics ms) = min 200 (length ms)"
  by (simp add: recent_metrics_def min.commute)

lemma column_mean_features:
  "ms \<noteq> [] \<Longrightarrow> column_mean (map features_of ms) =
     Some (map (\<lambda>f. sum_list (map f ms) / real (length ms))
             [cpu, memory, latency, error_rate, requests_per_sec])"
  by (cases ms) (auto simp: column_mean_def list_all_iff features_of_def comp_def upt_0_5)

lemma approve_action_not_found:
  "\<forall>x\<in>set (actions d). action_id x \<noteq> i \<Longrightarrow>
   approve_action now i by d = (Inl (HTTPException 404), d)"
  by (simp add: approve_action_def update_one_no_match)

lemma reject_action_not_found:
  "\<forall>x\<in>set (actions d). action_id x \<noteq> i \<Longrightarrow>
   reject_action i d = (Inl (HTTPException 404), d)"
  by (simp add: reject_action_def update_one_no_match)

subsection \<open>The example inputs\<close>

lemma example_incident_fields:
  "has_id ''i1'' example_incident"
  "example_incident ''status'' = Some (JStr ''open'')"
  "example_incident ''resolved_at'' = Some JNull"
  "example_incident ''title'' \<noteq> None"
  "example_incident ''service'' \<noteq> None"
  "example_incident ''severity'' \<noteq> None"
  by (simp_all add: has_id_def example_incident_def new_incident_def)

lemma example_spans:
  "str_find ''Sorry, no list'' CHR ''['' = - 1"
  "str_find ''[oops]'' CHR ''['' = 0"
  "str_rfind ''[oops]'' CHR '']'' = 5"
  by (simp_all add: str_find_def str_rfind_def)

lemma example_latest:
  "latest_metric svc [example_metric] = (if svc = ''api-gateway'' then Some example_metric else None)"
  by (simp add: latest_metric_def example_metric_def)

lemma example_features:
  "features_of example_metric = [90, 40, 100, 1, 300]"
  "timestamp example_metric = ''2024-01-01T00:00:00+00:00''"
  by (simp_all add: features_of_def example_metric_def)

lemma example_attribute:
  "attribute [30, 40, 100, 1, 300] [90, 40, 100, 1, 300] = Some (0, ''cpu'', 90, 30)"
  by (simp add: attribute_def deviations_def deviation_def upt_0_5 argmax_def metric_names_def)

lemma example_pass:
  "fst (detect_anomalies (\<lambda>m x. Some (- 1)) (\<lambda>m x. Some 0) example_detector (\<lambda>k. ''n1'')
          DataSimulator_init example_db) =
     Inr [\<lparr>anomaly_id = ''n1'', anomaly_timestamp = ''2024-01-01T00:00:00+00:00'',
           anomaly_service = ''api-gateway'', metric_type = ''cpu'', severity = ''medium'',
           confidence = 1 / 2, anomaly_description = ''Anomalous cpu detected'',
           anomaly_value = 90, anomaly_baseline = 30\<rparr>]"
  by (simp add: detect_anomalies_def DataSimulator_init_def example_db_def example_latest
      example_features detect_def score_metric_def example_detector_def example_attribute
      severity_of_def Let_def)

lemma example_memory_latest:
  "latest_metric svc (metrics example_memory_db) =
     (if svc = ''api-gateway'' then Some (example_metric\<lparr>cpu := 30, memory := 90\<rparr>) else None)"
  by (simp add: latest_metric_def example_memory_db_def example_metric_def)

lemma example_memory_features:
  "features_of (example_metric\<lparr>cpu := 30, memory := 90\<rparr>) = [30, 90, 100, 1, 300]"
  "timestamp (example_metric\<lparr>cpu := 30, memory := 90\<rparr>) = ''2024-01-01T00:00:00+00:00''"
  by (simp_all add: features_of_def example_metric_def)

lemma example_memory_attribute:
  "attribute [30, 40, 100, 1, 300] [30, 90, 100, 1, 300] = Some (1, ''memory'', 90, 40)"
  by (simp add: attribute_def deviations_def deviation_def upt_0_5 argmax_def metric_names_def)

lemma example_memory_pass:
  "fst (detect_anomalies (\<lambda>m x. Some (- 1)) (\<lambda>m x. Some 0) example_detector (\<lambda>k. ''n1'')
          DataSimulator_init example_memory_db) =
     Inr [\<lparr>anomaly_id = ''n1'', anomaly_timestamp = ''2024-01-01T00:00:00+00:00'',
           anomaly_service = ''api-gateway'', metric_type = ''memory'', severity = ''medium'',
           confidence = 1 / 2, anomaly_description = ''Anomalous memory detected'',
           anomaly_value = 90, anomaly_baseline = 40\<rparr>]"
  by (simp add: detect_anomalies_def DataSimulator_init_def example_memory_latest
      example_memory_features detect_def score_metric_def example_detector_def
      example_memory_attribute severity_of_def Let_def)

lemma recent_metrics_replicate:
  "recent_metrics (replicate n x) = replicate (min 200 n) x"
proof -
  have "sort_key timestamp (replicate n x) = replicate n x"
    by (intro sort_key_id_if_sorted) (simp add: sorted_replicate)
  then show ?thesis by (simp add: recent_metrics_def)
qed


section \<open>The action workflow\<close>

text \<open>
  Claim C1, as the code has it. Approving an existing action sets its status to
  \<^verbatim>\<open>approved\<close>, stamps \<open>approved_by\<close> and sets \<open>executed_at\<close> to the clock reading;
  rejecting it sets its status to \<^verbatim>\<open>rejected\<close> and touches no other field. Neither
  handler looks at the status the action has: both overwrite it, whatever it was. The
  action is the first stored one with the requested identifier.
\<close>

theorem action_decision_overwrites:
  assumes "actions d = xs @ a # ys" "\<forall>x\<in>set xs. action_id x \<noteq> i" "action_id a = i"
  shows "approve_action now i by d =
           (Inr (Some (a\<lparr>status := ''approved'', approved_by := Some by,
                          executed_at := Some now\<rparr>)),
            d\<lparr>actions := xs @ a\<lparr>status := ''approved'', approved_by := Some by,
                                  executed_at := Some now\<rparr> # ys\<rparr>) \<and>
         reject_action i d =
           (Inr (Some (a\<lparr>status := ''rejected''\<rparr>)),
            d\<lparr>actions := xs @ a\<lparr>status := ''rejected''\<rparr> # ys\<rparr>)"
  using approve_action_first[OF assms] reject_action_first[OF assms] by simp

text \<open>
  The theorem at the example database, whose only action is pending.
\<close>

theorem action_decision_overwrites_witness:
  "approve_action ''2024-01-01T00:01:00+00:00'' ''a1'' ''alice'' example_db =
     (Inr (Some (example_action\<lparr>status := ''approved'', approved_by := Some ''alice'',
                   executed_at := Some ''2024-01-01T00:01:00+00:00''\<rparr>)),
      example_db\<lparr>actions := [example_action\<lparr>status := ''approved'',
                     approved_by := Some ''alice'',
                     executed_at := Some ''2024-01-01T00:01:00+00:00''\<rparr>]\<rparr>) \<and>
   reject_action ''a1'' example_db =
     (Inr (Some (example_action\<lparr>status := ''rejected''\<rparr>)),
      example_db\<lparr>actions := [example_action\<lparr>status := ''rejected''\<rparr>]\<rparr>)"
  using action_decision_overwrites[of example_db "[]" example_action "[]" "''a1''"
      "''2024-01-01T00:01:00+00:00''" "''alice''"]
  by (simp add: example_db_def example_action_def)

text \<open>
  Claim C1 as the specification states it fails: an approved action that is then rejected
  becomes \<^verbatim>\<open>rejected\<close>, and keeps its \<open>approved_by\<close> and \<open>executed_at\<close>.
\<close>

theorem reject_after_approve_counterexample:
  "map status (actions (snd (approve_action ''2024-01-01T00:01:00+00:00'' ''a1'' ''alice''
        example_db))) = [''approved''] \<and>
   map (\<lambda>a. (status a, approved_by a, executed_at a))
     (actions (snd (reject_action ''a1''
        (snd (approve_action ''2024-01-01T00:01:00+00:00'' ''a1'' ''alice'' example_db))))) =
     [(''rejected'', Some ''alice'', Some ''2024-01-01T00:01:00+00:00'')]"
  by (simp add: approve_action_def reject_action_def example_db_def example_action_def)


section \<open>Resolution of incidents\<close>

text \<open>
  Claim C2, as the code has it. A patch of an existing incident sets \<open>resolved_at\<close> to
  the clock reading exactly when the request body carries a truthy \<open>resolved_at\<close>; a
  falsy \<open>resolved_at\<close> of the body is stored as it is, and a body without the field
  leaves the stored value alone. The \<open>status\<close> field is overwritten by the body's
  \<open>status\<close> alone: the two fields are independent of each other.
\<close>

theorem update_incident_resolved_at:
  assumes "incidents d = xs @ old # ys" "\<forall>x\<in>set xs. \<not> has_id i x" "has_id i old"
  shows "snd (update_incident now i updates d) =
           d\<lparr>incidents := xs @ (old ++ stamp_resolved now updates) # ys\<rparr> \<and>
         (old ++ stamp_resolved now updates) ''resolved_at'' =
           (case updates ''resolved_at'' of
              None \<Rightarrow> old ''resolved_at''
            | Some v \<Rightarrow> if truthy v then Some (JStr now) else Some v) \<and>
         (old ++ stamp_resolved now updates) ''status'' =
           (case updates ''status'' of None \<Rightarrow> old ''status'' | Some v \<Rightarrow> Some v)"
  using update_incident_first(1)[OF assms] stamp_resolved_field
    stamp_resolved_other[of "''status''"]
  by simp

text \<open>
  The theorem at the example database: one patch resolves the incident and marks the
  resolution.
\<close>

theorem update_incident_resolved_at_witness:
  "map (\<lambda>x. (x ''status'', x ''resolved_at''))
     (incidents (snd (update_incident ''2024-01-01T00:02:00+00:00'' ''i1''
        [''status'' \<mapsto> JStr ''resolved'', ''resolved_at'' \<mapsto> JBool True] example_db))) =
     [(Some (JStr ''resolved''), Some (JStr ''2024-01-01T00:02:00+00:00''))]"
  using update_incident_resolved_at[of example_db "[]" example_incident "[]" "''i1''"
      "''2024-01-01T00:02:00+00:00''"
      "[''status'' \<mapsto> JStr ''resolved'', ''resolved_at'' \<mapsto> JBool True]"]
  by (simp add: example_db_def example_incident_fields)

text \<open>
  Claim C2 as the specification states it fails in both directions, and a second
  resolution request moves \<open>resolved_at\<close>: setting the status to \<^verbatim>\<open>resolved\<close> leaves
  \<open>resolved_at\<close> null; a resolution marker sets \<open>resolved_at\<close> on an incident that
  stays \<^verbatim>\<open>open\<close>; and a later marker replaces the earlier time.
\<close>

theorem resolved_at_counterexample:
  "map (\<lambda>x. (x ''status'', x ''resolved_at''))
     (incidents (snd (update_incident ''2024-01-01T00:02:00+00:00'' ''i1''
        [''status'' \<mapsto> JStr ''resolved''] example_db))) =
     [(Some (JStr ''resolved''), Some JNull)] \<and>
   map (\<lambda>x. (x ''status'', x ''resolved_at''))
     (incidents (snd (update_incident ''2024-01-01T00:02:00+00:00'' ''i1''
        [''resolved_at'' \<mapsto> JBool True] example_db))) =
     [(Some (JStr ''open''), Some (JStr ''2024-01-01T00:02:00+00:00''))] \<and>
   map (\<lambda>x. (x ''status'', x ''resolved_at''))
     (incidents (snd (update_incident ''2024-01-01T00:03:00+00:00'' ''i1''
        [''resolved_at'' \<mapsto> JBool True]
        (snd (update_incident ''2024-01-01T00:02:00+00:00'' ''i1''
           [''resolved_at'' \<mapsto> JBool True] example_db))))) =
     [(Some (JStr ''open''), Some (JStr ''2024-01-01T00:03:00+00:00''))]"
  by (simp add: update_incident_def example_db_def example_incident_def new_incident_def
      has_id_def stamp_resolved_def map_add_def)


section \<open>Fallback recommendations\<close>

text \<open>
  Claim C3, as the code has it, for an incident that exists and has the fields the prompt
  reads. When the answer holds no \<^verbatim>\<open>[\<close> or no \<^verbatim>\<open>]\<close> after the first \<^verbatim>\<open>[\<close>, the
  three-item list of the \<^verbatim>\<open>else\<close> branch is stored on the incident and three pending
  actions owned by the incident are appended in the order of the list. When a bracketed
  span is found and \<^verbatim>\<open>json.loads\<close> raises on it, the one-item list of the
  \<^verbatim>\<open>except\<close> branch is stored and a single pending action is appended.
\<close>

theorem recommendation_fallbacks:
  assumes "incidents d = xs @ old # ys" "\<forall>x\<in>set xs. \<not> has_id i x" "has_id i old"
    and "old ''title'' \<noteq> None" "old ''service'' \<noteq> None" "old ''severity'' \<noteq> None"
  shows
    "(str_find r CHR ''['' < 0 \<or> str_rfind r CHR '']'' + 1 \<le> str_find r CHR ''['' \<longrightarrow>
        generate_recommendations L stamp (Some r) i d =
          (Inr (JArr default_recommendations),
           d\<lparr>incidents := xs @ old(''recommendations'' \<mapsto> JArr default_recommendations) # ys,
             actions := actions d @
               map (\<lambda>(k, a, ds, r, im).
                      \<lparr>action_id = fst (stamp k), incident_id = i, action = a,
                       description = ds, risk_level = r, impact = im, status = ''pending'',
                       approved_by = None, executed_at = None, created_at = snd (stamp k)\<rparr>)
                 [(0, ''Scale Resources'',
                   ''Increase CPU and memory allocation for the affected service'',
                   ''low'', ''Improved performance and reduced error rates''),
                  (1, ''Restart Service'',
                   ''Perform a rolling restart of the service instances'',
                   ''medium'', ''Clears memory leaks and resets connections''),
                  (2, ''Review Recent Changes'',
                   ''Investigate and potentially rollback recent deployments'',
                   ''low'', ''Identifies root cause if related to recent changes'')]\<rparr>)) \<and>
     (0 \<le> str_find r CHR ''['' \<and> str_find r CHR ''['' < str_rfind r CHR '']'' + 1 \<and>
      L (slice r (str_find r CHR ''['') (str_rfind r CHR '']'' + 1)) = None \<longrightarrow>
        generate_recommendations L stamp (Some r) i d =
          (Inr (JArr except_recommendations),
           d\<lparr>incidents := xs @ old(''recommendations'' \<mapsto> JArr except_recommendations) # ys,
             actions := actions d @
               [\<lparr>action_id = fst (stamp 0), incident_id = i, action = ''Scale Resources'',
                 description = ''Increase CPU and memory allocation'', risk_level = ''low'',
                 impact = ''Improved performance'', status = ''pending'', approved_by = None,
                 executed_at = None, created_at = snd (stamp 0)\<rparr>]\<rparr>))"
proof (intro conjI impI)
  assume "str_find r CHR ''['' < 0 \<or> str_rfind r CHR '']'' + 1 \<le> str_find r CHR ''[''"
  then have "parse_recommendations L r = JArr default_recommendations"
    by (rule parse_no_span)
  from generate_recommendations_first[OF assms this create_actions_default]
  show "generate_recommendations L stamp (Some r) i d =
          (Inr (JArr default_recommendations),
           d\<lparr>incidents := xs @ old(''recommendations'' \<mapsto> JArr default_recommendations) # ys,
             actions := actions d @
               map (\<lambda>(k, a, ds, r, im).
                      \<lparr>action_id = fst (stamp k), incident_id = i, action = a,
                       description = ds, risk_level = r, impact = im, status = ''pending'',
                       approved_by = None, executed_at = None, created_at = snd (stamp k)\<rparr>)
                 [(0, ''Scale Resources'',
                   ''Increase CPU and memory allocation for the affected service'',
                   ''low'', ''Improved performance and reduced error rates''),
                  (1, ''Restart Service'',
                   ''Perform a rolling restart of the service instances'',
                   ''medium'', ''Clears memory leaks and resets connections''),
                  (2, ''Review Recent Changes'',
                   ''Investigate and potentially rollback recent deployments'',
                   ''low'', ''Identifies root cause if related to recent changes'')]\<rparr>)" .
next
  assume "0 \<le> str_find r CHR ''['' \<and> str_find r CHR ''['' < str_rfind r CHR '']'' + 1 \<and>
      L (slice r (str_find r CHR ''['') (str_rfind r CHR '']'' + 1)) = None"
  then have "parse_recommendations L r = JArr except_recommendations"
    by (intro parse_span_fails) auto
  from generate_recommendations_first[OF assms this create_actions_except]
  show "generate_recommendations L stamp (Some r) i d =
          (Inr (JArr except_recommendations),
           d\<lparr>incidents := xs @ old(''recommendations'' \<mapsto> JArr except_recommendations) # ys,
             actions := actions d @
               [\<lparr>action_id = fst (stamp 0), incident_id = i, action = ''Scale Resources'',
                 description = ''Increase CPU and memory allocation'', risk_level = ''low'',
                 impact = ''Improved performance'', status = ''pending'', approved_by = None,
                 executed_at = None, created_at = snd (stamp 0)\<rparr>]\<rparr>)" .
qed

text \<open>
  The theorem at the example database, for an answer without brackets and for one whose
  bracketed span does not parse. The database held one action before.
\<close>

theorem recommendation_fallbacks_witness:
  "map (\<lambda>a. (incident_id a, action a, status a))
     (actions (snd (generate_recommendations failing_loads example_stamp
        (Some ''Sorry, no list'') ''i1'' example_db))) =
     [(''i1'', ''Restart Service'', ''pending''), (''i1'', ''Scale Resources'', ''pending''),
      (''i1'', ''Restart Service'', ''pending''),
      (''i1'', ''Review Recent Changes'', ''pending'')] \<and>
   map (\<lambda>a. (incident_id a, action a, status a))
     (actions (snd (generate_recommendations failing_loads example_stamp
        (Some ''[oops]'') ''i1'' example_db))) =
     [(''i1'', ''Restart Service'', ''pending''), (''i1'', ''Scale Resources'', ''pending'')]"
  using recommendation_fallbacks[of example_db "[]" example_incident "[]" "''i1''"
      "''Sorry, no list''" failing_loads example_stamp]
    recommendation_fallbacks[of example_db "[]" example_incident "[]" "''i1''"
      "''[oops]''" failing_loads example_stamp]
  by (simp add: example_db_def example_incident_fields example_spans failing_loads_def
      example_action_def)

text \<open>
  Claim C3 as the specification states it fails for a span that does not parse: one
  action is created, from a list that is not the three-item list.
\<close>

theorem parse_failure_counterexample:
  "fst (generate_recommendations failing_loads example_stamp (Some ''[oops]'') ''i1''
          example_db) = Inr (JArr except_recommendations) \<and>
   length (actions example_db) = 1 \<and>
   length (actions (snd (generate_recommendations failing_loads example_stamp
          (Some ''[oops]'') ''i1'' example_db))) = 2 \<and>
   length except_recommendations = 1 \<and>
   except_recommendations \<noteq> default_recommendations"
proof -
  have p: "parse_recommendations failing_loads ''[oops]'' = JArr except_recommendations"
    by (intro parse_span_fails) (simp_all add: example_spans failing_loads_def)
  have "generate_recommendations failing_loads example_stamp (Some ''[oops]'') ''i1''
          example_db =
        (Inr (JArr except_recommendations),
         example_db\<lparr>incidents :=
             [] @ example_incident(''recommendations'' \<mapsto> JArr except_recommendations) # [],
           actions := actions example_db @
             [\<lparr>action_id = fst (example_stamp 0), incident_id = ''i1'',
               action = ''Scale Resources'',
               description = ''Increase CPU and memory allocation'', risk_level = ''low'',
               impact = ''Improved performance'', status = ''pending'', approved_by = None,
               executed_at = None, created_at = snd (example_stamp 0)\<rparr>]\<rparr>)"
    by (rule generate_recommendations_first[OF _ _ _ _ _ _ p create_actions_except])
       (simp_all add: example_db_def example_incident_fields)
  then show ?thesis
    by (simp add: example_db_def except_recommendations_def default_recommendations_def)
qed


section \<open>Training\<close>

text \<open>
  Claim C4, as the code has it. \<open>train\<close> leaves the detector as it is when at most 20
  samples are supplied. With more than 20 samples of one dimension \<open>n\<close>, and a \<open>fit\<close>
  that succeeds, it stores the fitted model, marks the detector trained and replaces the
  baseline by the mean of every column.
\<close>

theorem train_threshold:
  "(length rows \<le> 20 \<longrightarrow> train fit det rows = (det, None)) \<and>
   (length rows > 20 \<and> fit rows = Some m \<and> (\<forall>row\<in>set rows. length row = n) \<longrightarrow>
      train fit det rows =
        (det\<lparr>model := m, is_trained := True,
             baseline_data :=
               map (\<lambda>j. sum_list (map (\<lambda>row. row ! j) rows) / real (length rows)) [0..<n]\<rparr>,
         None))"
  by (cases rows) (auto simp: train_def column_mean_def list_all_iff Let_def)

text \<open>
  The theorem at 20 and at 21 equal samples.
\<close>

theorem train_threshold_witness:
  "train example_fit (AnomalyDetector_init 0) (example_rows 20) =
     (AnomalyDetector_init 0, None) \<and>
   train example_fit (AnomalyDetector_init 0) (example_rows 21) =
     (\<lparr>model = 21, is_trained = True, baseline_data = [30, 40, 100, 1, 300]\<rparr>, None)"
  using train_threshold[of "example_rows 20" example_fit "AnomalyDetector_init 0" 20 5]
    train_threshold[of "example_rows 21" example_fit "AnomalyDetector_init 0" 21 5]
  by (simp add: example_rows_def example_fit_def AnomalyDetector_init_def upt_0_5
      sum_list_replicate)

text \<open>
  Claim C4 as the specification states it fails at the boundary: 20 samples on which
  \<open>fit\<close> would succeed leave the detector untrained.
\<close>

theorem train_twenty_counterexample:
  "length (example_rows 20) = 20 \<and>
   example_fit (example_rows 20) = Some 20 \<and>
   \<not> is_trained (AnomalyDetector_init (0::nat)) \<and>
   train example_fit (AnomalyDetector_init 0) (example_rows 20) =
     (AnomalyDetector_init 0, None)"
  by (simp add: train_def example_rows_def example_fit_def AnomalyDetector_init_def)


section \<open>Severity\<close>

text \<open>
  Claim C5. The severity is \<^verbatim>\<open>critical\<close> above 0.8, \<^verbatim>\<open>high\<close> above 0.6 and up to
  0.8, and \<^verbatim>\<open>medium\<close> up to 0.6; 0.8 itself is \<^verbatim>\<open>high\<close> and 0.6 itself is
  \<^verbatim>\<open>medium\<close>. Every anomaly that a detection pass returns carries the severity of its
  own confidence.
\<close>

theorem severity_thresholds:
  "(c > 0.8 \<longrightarrow> severity_of c = ''critical'') \<and>
   (0.6 < c \<and> c \<le> 0.8 \<longrightarrow> severity_of c = ''high'') \<and>
   (c \<le> 0.6 \<longrightarrow> severity_of c = ''medium'') \<and>
   severity_of 0.8 = ''high'' \<and> severity_of 0.6 = ''medium'' \<and>
   (\<forall>found d'. detect_anomalies P S det uuid sim d = (Inr found, d') \<longrightarrow>
      (\<forall>a\<in>set found. severity a = severity_of (confidence a)))"
proof -
  have "\<forall>found d'. detect_anomalies P S det uuid sim d = (Inr found, d') \<longrightarrow>
          (\<forall>a\<in>set found. severity a = severity_of (confidence a))"
    unfolding detect_anomalies_def using detect_loop_severity[where acc = "[]"] by fastforce
  then show ?thesis by (simp add: severity_of_def)
qed

text \<open>
  The theorem at the confidences 0.85, 0.7 and 0.4, and at a pass over the example
  database that flags the sample of one service with confidence 1/2.
\<close>

theorem severity_thresholds_witness:
  "severity_of 0.85 = ''critical'' \<and> severity_of 0.7 = ''high'' \<and>
   severity_of 0.4 = ''medium'' \<and>
   fst (detect_anomalies (\<lambda>m x. Some (- 1)) (\<lambda>m x. Some 0) example_detector (\<lambda>k. ''n1'')
          DataSimulator_init example_db) =
     Inr [\<lparr>anomaly_id = ''n1'', anomaly_timestamp = ''2024-01-01T00:00:00+00:00'',
           anomaly_service = ''api-gateway'', metric_type = ''cpu'', severity = ''medium'',
           confidence = 1 / 2, anomaly_description = ''Anomalous cpu detected'',
           anomaly_value = 90, anomaly_baseline = 30\<rparr>]"
  using severity_thresholds[where c = "0.85" and P = "\<lambda>m x. Some (- 1)"
      and S = "\<lambda>m x. Some 0" and det = example_detector and uuid = "\<lambda>k. ''n1''"
      and sim = DataSimulator_init and d = example_db]
    severity_thresholds[where c = "0.7" and P = "\<lambda>m x. Some (- 1)"
      and S = "\<lambda>m x. Some 0" and det = example_detector and uuid = "\<lambda>k. ''n1''"
      and sim = DataSimulator_init and d = example_db]
    severity_thresholds[where c = "0.4" and P = "\<lambda>m x. Some (- 1)"
      and S = "\<lambda>m x. Some 0" and det = example_detector and uuid = "\<lambda>k. ''n1''"
      and sim = DataSimulator_init and d = example_db]
    example_pass
  by simp


section \<open>The neutral default of detection\<close>

text \<open>
  Claim C6. \<open>detect\<close> answers \<open>(False, 0.5)\<close> on an untrained detector, and on a
  trained one whenever the scoring block raises, which it does as soon as \<open>predict\<close> or
  \<open>score_samples\<close> raises. \<open>detect\<close> itself has no failing outcome.
\<close>

theorem detect_neutral_default:
  "(\<not> is_trained det \<longrightarrow> detect P S det x = (False, 0.5)) \<and>
   (P (model det) x = None \<or> S (model det) x = None \<longrightarrow>
      score_metric P S (model det) x = None) \<and>
   (score_metric P S (model det) x = None \<longrightarrow> detect P S det x = (False, 0.5))"
  by (auto simp: detect_def score_metric_def split: option.splits)

text \<open>
  The theorem at an untrained detector, and at a trained one whose \<open>score_samples\<close>,
  or whose \<open>predict\<close>, raises.
\<close>

theorem detect_neutral_default_witness:
  "detect (\<lambda>m x. Some (- 1)) (\<lambda>m x. Some 0) (AnomalyDetector_init (0::nat))
     [90, 40, 100, 1, 300] = (False, 0.5) \<and>
   detect (\<lambda>m x. Some (- 1)) (\<lambda>m x. None) example_detector [90, 40, 100, 1, 300] =
     (False, 0.5) \<and>
   detect (\<lambda>m x. None) (\<lambda>m x. Some 0) example_detector [90, 40, 100, 1, 300] =
     (False, 0.5)"
  using detect_neutral_default[of "AnomalyDetector_init (0::nat)" "\<lambda>m x. Some (- 1)"
      "\<lambda>m x. Some 0" "[90, 40, 100, 1, 300]"]
    detect_neutral_default[of example_detector "\<lambda>m x. Some (- 1)" "\<lambda>m x. None"
      "[90, 40, 100, 1, 300]"]
    detect_neutral_default[of example_detector "\<lambda>m x. None" "\<lambda>m x. Some 0"
      "[90, 40, 100, 1, 300]"]
  by (simp add: AnomalyDetector_init_def)


section \<open>Attribution\<close>

text \<open>
  Claim C7. For a five-entry feature vector and a stored baseline of five entries, none of
  them \<open>-1\<close> (the divisor \<open>baseline + 1\<close> is then not zero), attribution reports a
  dimension whose relative deviation \<open>\<bar>value - baseline\<bar> / (baseline + 1)\<close> is greatest,
  the first such dimension, with the value and the baseline of that dimension. With no
  stored baseline, and no feature equal to \<open>-1\<close>, the features are their own baseline:
  every deviation is zero and the first dimension is reported. The detection pass stores
  exactly that: every anomaly it returns belongs to a service whose latest sample was
  flagged, its \<open>metric_type\<close> names a dimension of that sample, its \<open>value\<close> is the
  sample's gauge of that dimension, and, for a stored baseline of five entries, its
  \<open>baseline\<close> is the baseline of that dimension and the dimension is the first of
  greatest relative deviation; with no stored baseline the dimension is the first one and
  the reported baseline is the gauge itself. Every service whose latest sample is flagged
  has an anomaly among those a successful pass returns.
\<close>

theorem attribution_max_deviation:
  "(length features = 5 \<and> length stored = 5 \<and> (\<forall>b\<in>set stored. b \<noteq> - 1) \<longrightarrow>
      (\<exists>i<5. attribute stored features =
                Some (i, metric_names ! i, features ! i, stored ! i) \<and>
         (\<forall>j<5. \<bar>features ! j - stored ! j\<bar> / (stored ! j + 1)
                  \<le> \<bar>features ! i - stored ! i\<bar> / (stored ! i + 1)) \<and>
         (\<forall>j<i. \<bar>features ! j - stored ! j\<bar> / (stored ! j + 1)
                  < \<bar>features ! i - stored ! i\<bar> / (stored ! i + 1)))) \<and>
   (length features = 5 \<and> (\<forall>f\<in>set features. f \<noteq> - 1) \<longrightarrow>
      deviations features features = Some [0, 0, 0, 0, 0] \<and>
      attribute [] features = Some (0, ''cpu'', features ! 0, features ! 0)) \<and>
   (detect_anomalies P S det uuid sim d = (Inr found, d') \<longrightarrow>
      (\<forall>a\<in>set found.
         \<exists>m i. latest_metric (anomaly_service a) (metrics d) = Some m \<and>
           fst (detect P S det (features_of m)) \<and> i < 5 \<and>
           metric_type a = metric_names ! i \<and>
           anomaly_value a = features_of m ! i \<and>
           (length (baseline_data det) = 5 \<longrightarrow>
              anomaly_baseline a = baseline_data det ! i \<and>
              (\<forall>j<5. \<bar>features_of m ! j - baseline_data det ! j\<bar> / (baseline_data det ! j + 1)
                       \<le> \<bar>features_of m ! i - baseline_data det ! i\<bar> /
                           (baseline_data det ! i + 1)) \<and>
              (\<forall>j<i. \<bar>features_of m ! j - baseline_data det ! j\<bar> / (baseline_data det ! j + 1)
                       < \<bar>features_of m ! i - baseline_data det ! i\<bar> /
                           (baseline_data det ! i + 1))) \<and>
           (baseline_data det = [] \<longrightarrow>
              i = 0 \<and> metric_type a = ''cpu'' \<and> anomaly_baseline a = features_of m ! 0)) \<and>
      (\<forall>svc\<in>set (services sim). \<forall>m.
         latest_metric svc (metrics d) = Some m \<and> fst (detect P S det (features_of m)) \<longrightarrow>
         (\<exists>a\<in>set found. anomaly_service a = svc)))"
proof (intro conjI impI)
  assume "length features = 5 \<and> length stored = 5 \<and> (\<forall>b\<in>set stored. b \<noteq> - 1)"
  then show "\<exists>i<5. attribute stored features =
                Some (i, metric_names ! i, features ! i, stored ! i) \<and>
         (\<forall>j<5. \<bar>features ! j - stored ! j\<bar> / (stored ! j + 1)
                  \<le> \<bar>features ! i - stored ! i\<bar> / (stored ! i + 1)) \<and>
         (\<forall>j<i. \<bar>features ! j - stored ! j\<bar> / (stored ! j + 1)
                  < \<bar>features ! i - stored ! i\<bar> / (stored ! i + 1))"
    using attribute_stored[of features stored] by blast
next
  assume "length features = 5 \<and> (\<forall>f\<in>set features. f \<noteq> - 1)"
  then show "deviations features features = Some [0, 0, 0, 0, 0]"
    and "attribute [] features = Some (0, ''cpu'', features ! 0, features ! 0)"
    using attribute_fallback[of features] by blast+
next
  assume run: "detect_anomalies P S det uuid sim d = (Inr found, d')"
  then have loop: "detect_loop P S det uuid (services sim) d [] = (Inr found, d')"
    by (simp add: detect_anomalies_def)
  show "\<forall>svc\<in>set (services sim). \<forall>m.
         latest_metric svc (metrics d) = Some m \<and> fst (detect P S det (features_of m)) \<longrightarrow>
         (\<exists>a\<in>set found. anomaly_service a = svc)"
    using detect_loop_complete[OF loop] by blast
  show "\<forall>a\<in>set found.
         \<exists>m i. latest_metric (anomaly_service a) (metrics d) = Some m \<and>
           fst (detect P S det (features_of m)) \<and> i < 5 \<and>
           metric_type a = metric_names ! i \<and>
           anomaly_value a = features_of m ! i \<and>
           (length (baseline_data det) = 5 \<longrightarrow>
              anomaly_baseline a = baseline_data det ! i \<and>
              (\<forall>j<5. \<bar>features_of m ! j - baseline_data det ! j\<bar> / (baseline_data det ! j + 1)
                       \<le> \<bar>features_of m ! i - baseline_data det ! i\<bar> /
                           (baseline_data det ! i + 1)) \<and>
              (\<forall>j<i. \<bar>features_of m ! j - baseline_data det ! j\<bar> / (baseline_data det ! j + 1)
                       < \<bar>features_of m ! i - baseline_data det ! i\<bar> /
                           (baseline_data det ! i + 1))) \<and>
           (baseline_data det = [] \<longrightarrow>
              i = 0 \<and> metric_type a = ''cpu'' \<and> anomaly_baseline a = features_of m ! 0)"
  proof
    fix a assume "a \<in> set found"
    with detect_loop_attributed[OF loop] obtain m i where
      m: "latest_metric (anomaly_service a) (metrics d) = Some m"
      and pos: "fst (detect P S det (features_of m))"
      and att: "attribute (baseline_data det) (features_of m) =
                  Some (i, metric_type a, anomaly_value a, anomaly_baseline a)"
      by auto
    have "length (features_of m) = 5" by (simp add: features_of_def)
    from attribute_SomeD[OF att this] m pos
    show "\<exists>m i. latest_metric (anomaly_service a) (metrics d) = Some m \<and>
           fst (detect P S det (features_of m)) \<and> i < 5 \<and>
           metric_type a = metric_names ! i \<and>
           anomaly_value a = features_of m ! i \<and>
           (length (baseline_data det) = 5 \<longrightarrow>
              anomaly_baseline a = baseline_data det ! i \<and>
              (\<forall>j<5. \<bar>features_of m ! j - baseline_data det ! j\<bar> / (baseline_data det ! j + 1)
                       \<le> \<bar>features_of m ! i - baseline_data det ! i\<bar> /
                           (baseline_data det ! i + 1)) \<and>
              (\<forall>j<i. \<bar>features_of m ! j - baseline_data det ! j\<bar> / (baseline_data det ! j + 1)
                       < \<bar>features_of m ! i - baseline_data det ! i\<bar> /
                           (baseline_data det ! i + 1))) \<and>
           (baseline_data det = [] \<longrightarrow>
              i = 0 \<and> metric_type a = ''cpu'' \<and> anomaly_baseline a = features_of m ! 0)"
      by (intro exI[of _ m] exI[of _ i]) blast
  qed
qed

text \<open>
  The theorem at the baseline \<open>[30, 40, 100, 1, 300]\<close> and the sample
  \<open>[90, 40, 100, 1, 300]\<close>, at the same sample with no baseline, and at a pass over a
  sample \<open>[30, 90, 100, 1, 300]\<close>, whose memory gauge deviates most.
\<close>

theorem attribution_max_deviation_witness:
  "attribute [30, 40, 100, 1, 300] [90, 40, 100, 1, 300] = Some (0, ''cpu'', 90, 30) \<and>
   attribute [] [90, 40, 100, 1, 300] = Some (0, ''cpu'', 90, 90) \<and>
   fst (detect_anomalies (\<lambda>m x. Some (- 1)) (\<lambda>m x. Some 0) example_detector (\<lambda>k. ''n1'')
          DataSimulator_init example_memory_db) =
     Inr [\<lparr>anomaly_id = ''n1'', anomaly_timestamp = ''2024-01-01T00:00:00+00:00'',
           anomaly_service = ''api-gateway'', metric_type = ''memory'', severity = ''medium'',
           confidence = 1 / 2, anomaly_description = ''Anomalous memory detected'',
           anomaly_value = 90, anomaly_baseline = 40\<rparr>]"
  using attribution_max_deviation[where features = "[90, 40, 100, 1, 300]"
      and stored = "[30, 40, 100, 1, 300]" and P = "\<lambda>m x. Some (- 1)"
      and S = "\<lambda>m x. Some 0" and det = example_detector and uuid = "\<lambda>k. ''n1''"
      and sim = DataSimulator_init and d = example_memory_db
      and found = "[\<lparr>anomaly_id = ''n1'', anomaly_timestamp = ''2024-01-01T00:00:00+00:00'',
           anomaly_service = ''api-gateway'', metric_type = ''memory'', severity = ''medium'',
           confidence = 1 / 2, anomaly_description = ''Anomalous memory detected'',
           anomaly_value = 90, anomaly_baseline = 40\<rparr>]"
      and d' = "snd (detect_anomalies (\<lambda>m x. Some (- 1)) (\<lambda>m x. Some 0) example_detector
          (\<lambda>k. ''n1'') DataSimulator_init example_memory_db)"]
    example_attribute example_memory_pass
  by simp


section \<open>The retrain threshold\<close>

text \<open>
  Claim C8, as the code has it. A cycle reads at most 200 samples. With at most 50 stored
  samples it leaves the detector as it is; with more than 50, and a \<open>fit\<close> that succeeds
  on the window, it stores the fitted model, marks the detector trained and sets the
  baseline to the means of the five gauges over the window.
\<close>

theorem retrain_threshold:
  "length (recent_metrics stored) \<le> 200 \<and>
   (length stored \<le> 50 \<longrightarrow> retrain_cycle fit det stored = det) \<and>
   (length stored > 50 \<and> fit (map features_of (recent_metrics stored)) = Some m \<longrightarrow>
      retrain_cycle fit det stored =
        det\<lparr>model := m, is_trained := True,
            baseline_data :=
              map (\<lambda>f. sum_list (map f (recent_metrics stored)) /
                       real (length (recent_metrics stored)))
                [cpu, memory, latency, error_rate, requests_per_sec]\<rparr>)"
proof -
  have ne: "length stored > 50 \<Longrightarrow> recent_metrics stored \<noteq> []"
    using length_recent_metrics[of stored] by auto
  show ?thesis
    using ne column_mean_features[of "recent_metrics stored"]
    by (auto simp: retrain_cycle_def length_recent_metrics train_def Let_def)
qed

text \<open>
  The theorem at 50 and at 51 stored samples.
\<close>

theorem retrain_threshold_witness:
  "retrain_cycle example_fit (AnomalyDetector_init 0) (replicate 50 example_metric) =
     AnomalyDetector_init 0 \<and>
   retrain_cycle example_fit (AnomalyDetector_init 0) (replicate 51 example_metric) =
     \<lparr>model = 51, is_trained = True, baseline_data = [90, 40, 100, 1, 300]\<rparr>"
  using retrain_threshold[of "replicate 50 example_metric" example_fit "AnomalyDetector_init 0" 50]
    retrain_threshold[of "replicate 51 example_metric" example_fit "AnomalyDetector_init 0" 51]
  by (simp add: recent_metrics_replicate example_fit_def AnomalyDetector_init_def
      sum_list_replicate example_metric_def)

text \<open>
  Claim C8 as the specification states it fails at the boundary: a window of exactly 50
  samples, on which \<open>fit\<close> would succeed, leaves the detector untrained.
\<close>

theorem retrain_fifty_counterexample:
  "length (recent_metrics (replicate 50 example_metric)) = 50 \<and>
   example_fit (map features_of (recent_metrics (replicate 50 example_metric))) = Some 50 \<and>
   \<not> is_trained (AnomalyDetector_init (0::nat)) \<and>
   retrain_cycle example_fit (AnomalyDetector_init 0) (replicate 50 example_metric) =
     AnomalyDetector_init 0"
  by (simp add: retrain_cycle_def recent_metrics_replicate example_fit_def
      AnomalyDetector_init_def)


section \<open>Failure injection\<close>

text \<open>
  Claim C9. For a service outside the simulator's list the endpoint answers with status
  400 and leaves the simulator as it is. For a listed service it succeeds, switches failure
  mode on for that service at the clock reading, changes nothing else, and the failure
  ranges of \<open>generate_metric\<close> then apply to that service and to no other. The list
  the simulator starts with is the five monitored services.
\<close>

theorem inject_failure_validates:
  "(svc \<notin> set (services sim) \<longrightarrow>
      inject_failure now svc sim = (Inl (HTTPException 400), sim)) \<and>
   (svc \<in> set (services sim) \<longrightarrow>
      (\<exists>r. fst (inject_failure now svc sim) = Inr r) \<and>
      snd (inject_failure now svc sim) =
        sim\<lparr>failure_mode := True, failure_service := Some svc, failure_start := Some now\<rparr> \<and>
      (\<forall>s. failing (snd (inject_failure now svc sim)) s = (s = svc))) \<and>
   set (services DataSimulator_init) =
     {''api-gateway'', ''auth-service'', ''database'', ''cache'', ''worker''}"
  by (auto simp: inject_failure_def sim_inject_failure_def failing_def DataSimulator_init_def)

text \<open>
  The theorem at the initial simulator, for an unknown and for a monitored service.
\<close>

theorem inject_failure_validates_witness:
  "inject_failure ''2024-01-01T00:04:00+00:00'' ''billing'' DataSimulator_init =
     (Inl (HTTPException 400), DataSimulator_init) \<and>
   snd (inject_failure ''2024-01-01T00:04:00+00:00'' ''database'' DataSimulator_init) =
     DataSimulator_init\<lparr>failure_mode := True, failure_service := Some ''database'',
       failure_start := Some ''2024-01-01T00:04:00+00:00''\<rparr> \<and>
   failing (snd (inject_failure ''2024-01-01T00:04:00+00:00'' ''database''
      DataSimulator_init)) ''database'' \<and>
   \<not> failing (snd (inject_failure ''2024-01-01T00:04:00+00:00'' ''database''
      DataSimulator_init)) ''cache''"
  using inject_failure_validates[of "''billing''" DataSimulator_init
      "''2024-01-01T00:04:00+00:00''"]
    inject_failure_validates[of "''database''" DataSimulator_init
      "''2024-01-01T00:04:00+00:00''"]
  by (simp add: DataSimulator_init_def failing_def)


section \<open>Active incidents\<close>

text \<open>
  Claim C10, as the code has it. Every incident adds one to \<open>total_incidents\<close>. It adds
  one to \<open>active_incidents\<close> when its status is the string \<^verbatim>\<open>open\<close> or an array
  that holds the string \<^verbatim>\<open>open\<close>, which is what the equality filter of the count
  selects, and nothing otherwise. An incident whose status is the string
  \<^verbatim>\<open>investigating\<close> is counted in the total and not among the active ones.
\<close>

theorem active_incidents_only_open:
  "total_incidents (get_dashboard_stats since det sim (d\<lparr>incidents := xs @ x # ys\<rparr>)) =
     Suc (total_incidents (get_dashboard_stats since det sim (d\<lparr>incidents := xs @ ys\<rparr>))) \<and>
   active_incidents (get_dashboard_stats since det sim (d\<lparr>incidents := xs @ x # ys\<rparr>)) =
     active_incidents (get_dashboard_stats since det sim (d\<lparr>incidents := xs @ ys\<rparr>)) +
       (if x ''status'' = Some (JStr ''open'') \<or>
           (\<exists>vs. x ''status'' = Some (JArr vs) \<and> JStr ''open'' \<in> set vs)
        then 1 else 0) \<and>
   (x ''status'' = Some (JStr ''investigating'') \<longrightarrow>
      active_incidents (get_dashboard_stats since det sim (d\<lparr>incidents := xs @ x # ys\<rparr>)) =
        active_incidents (get_dashboard_stats since det sim (d\<lparr>incidents := xs @ ys\<rparr>)))"
proof -
  have m: "matches_str (x ''status'') ''open'' \<longleftrightarrow>
             x ''status'' = Some (JStr ''open'') \<or>
             (\<exists>vs. x ''status'' = Some (JArr vs) \<and> JStr ''open'' \<in> set vs)"
  proof (cases "x ''status''")
    case None
    then show ?thesis by simp
  next
    case (Some v)
    then show ?thesis by (cases v) auto
  qed
  show ?thesis
    unfolding m[symmetric]
    by (auto simp: get_dashboard_stats_def count_documents_def)
qed

text \<open>The theorem at the example database with a second, investigating, incident.\<close>

theorem active_incidents_only_open_witness:
  "total_incidents (get_dashboard_stats ''2023-12-31T00:00:00+00:00'' example_detector
      DataSimulator_init
      (example_db\<lparr>incidents :=
         [example_incident, example_incident(''status'' \<mapsto> JStr ''investigating'')]\<rparr>)) = 2 \<and>
   active_incidents (get_dashboard_stats ''2023-12-31T00:00:00+00:00'' example_detector
      DataSimulator_init
      (example_db\<lparr>incidents :=
         [example_incident, example_incident(''status'' \<mapsto> JStr ''investigating'')]\<rparr>)) = 1"
  using active_incidents_only_open[where x = "example_incident(''status'' \<mapsto> JStr ''investigating'')"
      and since = "''2023-12-31T00:00:00+00:00''"
      and det = example_detector and sim = DataSimulator_init and d = example_db
      and xs = "[example_incident]" and ys = "[]"]
  by (simp add: get_dashboard_stats_def count_documents_def example_incident_def
      new_incident_def)

text \<open>
  Claim C10 as the specification states it fails: a patch may store an array as the status
  of an incident, and an incident whose status is the array of \<^verbatim>\<open>investigating\<close> and
  \<^verbatim>\<open>open\<close>, which is not the status \<^verbatim>\<open>open\<close>, is counted as active.
\<close>

theorem array_status_counterexample:
  "map (\<lambda>x. x ''status'')
     (incidents (snd (update_incident ''2024-01-01T00:02:00+00:00'' ''i1''
        [''status'' \<mapsto> JArr [JStr ''investigating'', JStr ''open'']] example_db))) =
     [Some (JArr [JStr ''investigating'', JStr ''open''])] \<and>
   total_incidents (get_dashboard_stats ''2023-12-31T00:00:00+00:00'' example_detector
      DataSimulator_init
      (snd (update_incident ''2024-01-01T00:02:00+00:00'' ''i1''
        [''status'' \<mapsto> JArr [JStr ''investigating'', JStr ''open'']] example_db))) = 1 \<and>
   active_incidents (get_dashboard_stats ''2023-12-31T00:00:00+00:00'' example_detector
      DataSimulator_init
      (snd (update_incident ''2024-01-01T00:02:00+00:00'' ''i1''
        [''status'' \<mapsto> JArr [JStr ''investigating'', JStr ''open'']] example_db))) = 1"
  by (simp add: update_incident_def example_db_def example_incident_def new_incident_def
      has_id_def stamp_resolved_def map_add_def get_dashboard_stats_def count_documents_def)

end
